theory Spec2Isabelle
  imports Main
begin

section \<open>Python values and exceptions\<close>

text \<open>
  Exceptions are values: every \<^verbatim>\<open>raise\<close> of the source is an \<open>Inl\<close> of the
  result. The built-in exceptions carry their message; \<open>AuthError\<close> and \<open>HTTPError\<close>
  stand for whatever a collaborator (credential manager, session) raises.
\<close>

datatype error =
    TypeError string
  | ValueError string
  | RuntimeError string
  | KeyError string
  | IndexError
  | AttributeError string
  | AuthError string
  | HTTPError string

text \<open>
  Decoded JSON, as the session hands it back for the two discovery-service calls.
  \<open>JNull\<close> is Python's \<^verbatim>\<open>None\<close>; a dict is an association list read with \<open>map_of\<close>.
\<close>

datatype json =
    JNull
  | JBool bool
  | JNum int
  | JStr string
  | JList "json list"
  | JDict "(string \<times> json) list"

text \<open>Truth value of a decoded object, as \<^verbatim>\<open>if discovery_list["items"]:\<close> tests it.\<close>

fun py_bool :: "json \<Rightarrow> bool" where
  "py_bool JNull = False"
| "py_bool (JBool b) = b"
| "py_bool (JNum n) = (n \<noteq> 0)"
| "py_bool (JStr s) = (s \<noteq> [])"
| "py_bool (JList xs) = (xs \<noteq> [])"
| "py_bool (JDict kvs) = (kvs \<noteq> [])"

text \<open>\<^verbatim>\<open>obj[key]\<close> with a string key: only a dict answers, with KeyError for a missing key.\<close>

fun getitem :: "json \<Rightarrow> string \<Rightarrow> error + json" where
  "getitem (JDict kvs) k = (case map_of kvs k of None \<Rightarrow> Inl (KeyError k) | Some v \<Rightarrow> Inr v)"
| "getitem (JList xs) k = Inl (TypeError ''list indices must be integers or slices, not str'')"
| "getitem (JStr s) k = Inl (TypeError ''string indices must be integers'')"
| "getitem v k = Inl (TypeError ''object is not subscriptable'')"

text \<open>
  \<^verbatim>\<open>obj[0]\<close>: the first element of a list or string (IndexError when empty); a decoded
  JSON dict has string keys only, so the key \<open>0\<close> is missing.
\<close>

fun getitem0 :: "json \<Rightarrow> error + json" where
  "getitem0 (JList []) = Inl IndexError"
| "getitem0 (JList (x # xs)) = Inr x"
| "getitem0 (JStr []) = Inl IndexError"
| "getitem0 (JStr (c # cs)) = Inr (JStr [c])"
| "getitem0 (JDict kvs) = Inl (KeyError ''0'')"
| "getitem0 v = Inl (TypeError ''object is not subscriptable'')"

text \<open>
  \<^verbatim>\<open>a or b\<close> on two optional objects: \<open>a\<close> when it is truthy, else \<open>b\<close>.
  \<^verbatim>\<open>None\<close> is falsy; the truth value of an object is its class's business.
\<close>

definition py_or :: "('a \<Rightarrow> bool) \<Rightarrow> 'a option \<Rightarrow> 'a option \<Rightarrow> 'a option" where
  "py_or truth a b = (case a of None \<Rightarrow> b | Some x \<Rightarrow> if truth x then a else b)"

section \<open>The collaborators of \<^verbatim>\<open>client.py\<close>\<close>

text \<open>
  \<^verbatim>\<open>client.py\<close> imports the credential managers, the request model, the resource tree
  and the default session from other modules of the package (\<^verbatim>\<open>auth.managers\<close>,
  \<^verbatim>\<open>models\<close>, \<^verbatim>\<open>resource\<close>, \<^verbatim>\<open>sessions.aiohttp_session\<close>). They are parameters
  of the model, with the shapes the call sites and the specification give them:
  \<^item> \<open>truthy\<close>: the truth value of a UserCreds object (\<^verbatim>\<open>user_creds or self.user_creds\<close>);
  \<^item> \<open>is_expired\<close>: \<^verbatim>\<open>Oauth2Manager.is_expired\<close>, a pure comparison with a Boolean
    result, so that \<^verbatim>\<open>is_expired(user_creds) is True\<close> is the result itself;
  \<^item> \<open>refresh\<close>: \<^verbatim>\<open>Oauth2Manager.refresh\<close>, a token exchange that returns new UserCreds
    or raises;
  \<^item> \<open>oauth2_authorize\<close>, \<open>api_key_authorize\<close>: the two \<^verbatim>\<open>authorize\<close> methods, pure
    transformations of a request;
  \<^item> \<open>session_factory\<close>: \<^verbatim>\<open>self.session_factory()\<close>; the argument counts the earlier calls,
    so successive calls may return different objects, and a call may raise;
  \<^item> \<open>session_send\<close>, \<open>session_aenter\<close>, \<open>session_aexit\<close>: the methods of the session;
  \<^item> \<open>apis_list\<close>, \<open>apis_getRest\<close>: the two methods of the bootstrap discovery service,
    \<^verbatim>\<open>self.discovery_service.apis.list(name=, preferred=, fields=)\<close> and
    \<^verbatim>\<open>self.discovery_service.apis.getRest(api=, version=, validate=)\<close>, which build a
    request or raise.
  Type variables: \<open>'r\<close> requests, \<open>'u\<close> UserCreds, \<open>'k\<close> API keys, \<open>'c\<close> ClientCreds,
  \<open>'s\<close> sessions, \<open>'p\<close> what the session's \<^verbatim>\<open>send\<close> returns.
\<close>

record ('r, 'u, 'k, 'c, 's, 'p) env =
  truthy :: "'u \<Rightarrow> bool"
  is_expired :: "'u \<Rightarrow> bool"
  refresh :: "'u \<Rightarrow> 'c option \<Rightarrow> error + 'u"
  oauth2_authorize :: "'r \<Rightarrow> 'u \<Rightarrow> 'r"
  api_key_authorize :: "'r \<Rightarrow> 'k \<Rightarrow> 'r"
  session_factory :: "nat \<Rightarrow> error + 's"
  session_send :: "'s \<Rightarrow> 'r list \<Rightarrow> int option \<Rightarrow> bool \<Rightarrow> error + 'p"
  session_aenter :: "'s \<Rightarrow> error + unit"
  session_aexit :: "'s \<Rightarrow> error + unit"
  apis_list :: "json \<Rightarrow> json \<Rightarrow> json \<Rightarrow> error + 'r"
  apis_getRest :: "json \<Rightarrow> json \<Rightarrow> bool \<Rightarrow> error + 'r"

text \<open>
  The calls an \<^verbatim>\<open>Aiogoogle\<close> object makes to its collaborators, logged in the order
  they are made.
\<close>

datatype ('r, 'u, 'k, 'c, 's) event =
    FactoryCall nat
  | RefreshCall 'u "'c option"
  | OAuth2Authorize 'r 'u
  | ApiKeyAuthorize 'r 'k
  | SendCall 's "'r list" "int option" bool
  | EnterCall 's
  | ExitCall 's
  | ListCall json json json
  | GetRestCall json json bool

fun is_factory :: "('r, 'u, 'k, 'c, 's) event \<Rightarrow> bool" where
  "is_factory (FactoryCall n) = True"
| "is_factory e = False"

fun is_refresh :: "('r, 'u, 'k, 'c, 's) event \<Rightarrow> bool" where
  "is_refresh (RefreshCall u c) = True"
| "is_refresh e = False"

fun is_authorize :: "('r, 'u, 'k, 'c, 's) event \<Rightarrow> bool" where
  "is_authorize (OAuth2Authorize r u) = True"
| "is_authorize (ApiKeyAuthorize r k) = True"
| "is_authorize e = False"

fun is_send :: "('r, 'u, 'k, 'c, 's) event \<Rightarrow> bool" where
  "is_send (SendCall s rs t f) = True"
| "is_send e = False"

fun is_getRest :: "('r, 'u, 'k, 'c, 's) event \<Rightarrow> bool" where
  "is_getRest (GetRestCall a v b) = True"
| "is_getRest e = False"

text \<open>A network operation: a refresh exchange, or anything done with a session.\<close>

fun is_network :: "('r, 'u, 'k, 'c, 's) event \<Rightarrow> bool" where
  "is_network (RefreshCall u c) = True"
| "is_network (FactoryCall n) = True"
| "is_network (SendCall s rs t f) = True"
| "is_network (EnterCall s) = True"
| "is_network (ExitCall s) = True"
| "is_network e = False"

definition factory_calls :: "('r, 'u, 'k, 'c, 's) event list \<Rightarrow> nat" where
  "factory_calls evs = length (filter is_factory evs)"

section \<open>\<^verbatim>\<open>class Aiogoogle\<close>\<close>

text \<open>
  The fields \<^verbatim>\<open>__init__\<close> sets and the methods read or write. \<open>events\<close> is not a
  field of the class: it is the log of the calls made so far.
\<close>

record ('r, 'u, 'k, 'c, 's) aiogoogle =
  active_session :: "'s option"
  api_key :: "'k option"
  user_creds :: "'u option"
  client_creds :: "'c option"
  events :: "('r, 'u, 'k, 'c, 's) event list"

definition init ::
  "'k option \<Rightarrow> 'u option \<Rightarrow> 'c option \<Rightarrow> ('r, 'u, 'k, 'c, 's) aiogoogle" where
  "init api_key_arg user_creds_arg client_creds_arg =
     \<lparr>active_session = None, api_key = api_key_arg, user_creds = user_creds_arg,
      client_creds = client_creds_arg, events = []\<rparr>"

text \<open>
  \<^verbatim>\<open>
  async def _ensure_session_set(self):
      if self.active_session is None:
          self.active_session = self.session_factory()
  \<close>
\<close>

definition ensure_session_set ::
  "('r, 'u, 'k, 'c, 's, 'p) env \<Rightarrow> ('r, 'u, 'k, 'c, 's) aiogoogle
     \<Rightarrow> (error + unit) \<times> ('r, 'u, 'k, 'c, 's) aiogoogle" where
  "ensure_session_set env self =
     (case active_session self of
        Some sess \<Rightarrow> (Inr (), self)
      | None \<Rightarrow>
          (let n = factory_calls (events self);
               self1 = self\<lparr>events := events self @ [FactoryCall n]\<rparr>
           in case session_factory env n of
                Inl e \<Rightarrow> (Inl e, self1)
              | Inr sess \<Rightarrow> (Inr (), self1\<lparr>active_session := Some sess\<rparr>)))"

text \<open>
  \<^verbatim>\<open>
  async def send(self, *args, **kwargs):
      await self._ensure_session_set()
      return await self.active_session.send(*args, **kwargs)
  \<close>
  The keyword arguments are the ones the three entry points pass: \<^verbatim>\<open>timeout\<close> and
  \<^verbatim>\<open>full_res\<close> (and \<^verbatim>\<open>session_factory\<close>, the same for every call).
\<close>

definition send ::
  "('r, 'u, 'k, 'c, 's, 'p) env \<Rightarrow> ('r, 'u, 'k, 'c, 's) aiogoogle \<Rightarrow> 'r list \<Rightarrow> int option
     \<Rightarrow> bool \<Rightarrow> (error + 'p) \<times> ('r, 'u, 'k, 'c, 's) aiogoogle" where
  "send env self args timeout full_res =
     (case ensure_session_set env self of
        (Inl e, self1) \<Rightarrow> (Inl e, self1)
      | (Inr u, self1) \<Rightarrow>
          (case active_session self1 of
             None \<Rightarrow> (Inl (AttributeError ''send''), self1)
           | Some sess \<Rightarrow>
               (session_send env sess args timeout full_res,
                self1\<lparr>events := events self1 @ [SendCall sess args timeout full_res]\<rparr>)))"

text \<open>
  \<^verbatim>\<open>
  async def as_user(self, *requests, timeout=None, full_res=False, user_creds=None):
      user_creds = user_creds or self.user_creds
      if user_creds is None:
          raise TypeError("No user credentials were found")
      if self.oauth2.is_expired(user_creds) is True:
          user_creds = await self.oauth2.refresh(user_creds, client_creds=self.client_creds)
          if self.user_creds is not None:
              self.user_creds = user_creds
      authorized_requests = [self.oauth2.authorize(request, user_creds) for request in requests]
      return await self.send(*authorized_requests, timeout=timeout, full_res=full_res, ...)
  \<close>
\<close>

definition as_user ::
  "('r, 'u, 'k, 'c, 's, 'p) env \<Rightarrow> ('r, 'u, 'k, 'c, 's) aiogoogle \<Rightarrow> 'r list \<Rightarrow> int option
     \<Rightarrow> bool \<Rightarrow> 'u option \<Rightarrow> (error + 'p) \<times> ('r, 'u, 'k, 'c, 's) aiogoogle" where
  "as_user env self requests timeout full_res user_creds_arg =
     (case py_or (truthy env) user_creds_arg (user_creds self) of
        None \<Rightarrow> (Inl (TypeError ''No user credentials were found''), self)
      | Some uc \<Rightarrow>
          (case
             (if is_expired env uc then
                (let self1 = self\<lparr>events := events self @ [RefreshCall uc (client_creds self)]\<rparr>
                 in case refresh env uc (client_creds self) of
                      Inl e \<Rightarrow> (Inl e, self1)
                    | Inr uc' \<Rightarrow>
                        (Inr uc',
                         if user_creds self1 \<noteq> None then self1\<lparr>user_creds := Some uc'\<rparr>
                         else self1))
              else (Inr uc, self))
           of
             (Inl e, self2) \<Rightarrow> (Inl e, self2)
           | (Inr uc2, self2) \<Rightarrow>
               send env
                 (self2\<lparr>events := events self2 @ map (\<lambda>request. OAuth2Authorize request uc2) requests\<rparr>)
                 (map (\<lambda>request. oauth2_authorize env request uc2) requests)
                 timeout full_res))"

text \<open>
  \<^verbatim>\<open>
  async def as_api_key(self, *requests, timeout=None, full_res=False, api_key=None):
      if self.api_key is None:
          raise TypeError("No API key found")
      authorized_requests = [self.api_key_manager.authorize(request, self.api_key)
                             for request in requests]
      return await self.send(*authorized_requests, timeout=timeout, full_res=full_res, ...)
  \<close>
  The keyword \<^verbatim>\<open>api_key\<close> is accepted and never read.
\<close>

definition as_api_key ::
  "('r, 'u, 'k, 'c, 's, 'p) env \<Rightarrow> ('r, 'u, 'k, 'c, 's) aiogoogle \<Rightarrow> 'r list \<Rightarrow> int option
     \<Rightarrow> bool \<Rightarrow> 'k option \<Rightarrow> (error + 'p) \<times> ('r, 'u, 'k, 'c, 's) aiogoogle" where
  "as_api_key env self requests timeout full_res api_key_arg =
     (case api_key self of
        None \<Rightarrow> (Inl (TypeError ''No API key found''), self)
      | Some k \<Rightarrow>
          send env
            (self\<lparr>events := events self @ map (\<lambda>request. ApiKeyAuthorize request k) requests\<rparr>)
            (map (\<lambda>request. api_key_authorize env request k) requests)
            timeout full_res)"

text \<open>
  \<^verbatim>\<open>
  async def as_anon(self, *requests, timeout=None, full_res=False):
      return await self.send(*requests, timeout=timeout, full_res=full_res, ...)
  \<close>
\<close>

definition as_anon ::
  "('r, 'u, 'k, 'c, 's, 'p) env \<Rightarrow> ('r, 'u, 'k, 'c, 's) aiogoogle \<Rightarrow> 'r list \<Rightarrow> int option
     \<Rightarrow> bool \<Rightarrow> (error + 'p) \<times> ('r, 'u, 'k, 'c, 's) aiogoogle" where
  "as_anon env self requests timeout full_res = send env self requests timeout full_res"

text \<open>
  \<^verbatim>\<open>
  async def __aenter__(self):
      await self._ensure_session_set()
      await self.active_session.__aenter__()
      return self

  async def __aexit__(self, *args):
      await self.active_session.__aexit__(*args)
  \<close>
\<close>

definition aenter ::
  "('r, 'u, 'k, 'c, 's, 'p) env \<Rightarrow> ('r, 'u, 'k, 'c, 's) aiogoogle
     \<Rightarrow> (error + unit) \<times> ('r, 'u, 'k, 'c, 's) aiogoogle" where
  "aenter env self =
     (case ensure_session_set env self of
        (Inl e, self1) \<Rightarrow> (Inl e, self1)
      | (Inr u, self1) \<Rightarrow>
          (case active_session self1 of
             None \<Rightarrow> (Inl (AttributeError ''__aenter__''), self1)
           | Some sess \<Rightarrow>
               (session_aenter env sess, self1\<lparr>events := events self1 @ [EnterCall sess]\<rparr>)))"

definition aexit ::
  "('r, 'u, 'k, 'c, 's, 'p) env \<Rightarrow> ('r, 'u, 'k, 'c, 's) aiogoogle
     \<Rightarrow> (error + unit) \<times> ('r, 'u, 'k, 'c, 's) aiogoogle" where
  "aexit env self =
     (case active_session self of
        None \<Rightarrow> (Inl (AttributeError ''__aexit__''), self)
      | Some sess \<Rightarrow> (session_aexit env sess, self\<lparr>events := events self @ [ExitCall sess]\<rparr>))"

section \<open>The discovery service's two methods\<close>

text \<open>
  \<^verbatim>\<open>
  async def list_api(self, name, preferred=None, fields=None):
      request = self.discovery_service.apis.list(name=name, preferred=preferred, fields=fields)
      return await self.as_anon(request)
  \<close>
\<close>

definition list_api ::
  "('r, 'u, 'k, 'c, 's, 'p) env \<Rightarrow> ('r, 'u, 'k, 'c, 's) aiogoogle \<Rightarrow> json \<Rightarrow> json \<Rightarrow> json
     \<Rightarrow> (error + 'p) \<times> ('r, 'u, 'k, 'c, 's) aiogoogle" where
  "list_api env self name preferred fields_arg =
     (let self1 = self\<lparr>events := events self @ [ListCall name preferred fields_arg]\<rparr>
      in case apis_list env name preferred fields_arg of
           Inl e \<Rightarrow> (Inl e, self1)
         | Inr request \<Rightarrow> as_anon env self1 [request] None False)"

text \<open>The object \<^verbatim>\<open>GoogleAPI(discovery_document, validate)\<close> that \<^verbatim>\<open>discover\<close> returns.\<close>

datatype google_api = GoogleAPI (discovery_document: json) (validate: bool)

text \<open>
  \<^verbatim>\<open>
  async def discover(self, api_name, api_version=None, validate=True):
      if api_version is None:
          discovery_list = await self.list_api(api_name, preferred=True)
          if discovery_list["items"]:
              api_name = discovery_list["items"][0]["name"]
              api_version = discovery_list["items"][0]["version"]
          else:
              raise ValueError("Invalid API name")
      request = self.discovery_service.apis.getRest(api=api_name, version=api_version, validate=False)
      discovery_docuemnt = await self.as_anon(request)
      return GoogleAPI(discovery_docuemnt, validate)
  \<close>
  \<open>get_rest\<close> is the part after the \<^verbatim>\<open>if\<close>, which both branches reach.
\<close>

definition get_rest ::
  "('r, 'u, 'k, 'c, 's, json) env \<Rightarrow> ('r, 'u, 'k, 'c, 's) aiogoogle \<Rightarrow> json \<Rightarrow> json \<Rightarrow> bool
     \<Rightarrow> (error + google_api) \<times> ('r, 'u, 'k, 'c, 's) aiogoogle" where
  "get_rest env self api_name api_version validate_arg =
     (let self1 = self\<lparr>events := events self @ [GetRestCall api_name api_version False]\<rparr>
      in case apis_getRest env api_name api_version False of
           Inl e \<Rightarrow> (Inl e, self1)
         | Inr request \<Rightarrow>
             (case as_anon env self1 [request] None False of
                (Inl e, self2) \<Rightarrow> (Inl e, self2)
              | (Inr discovery_docuemnt, self2) \<Rightarrow>
                  (Inr (GoogleAPI discovery_docuemnt validate_arg), self2)))"

definition discover ::
  "('r, 'u, 'k, 'c, 's, json) env \<Rightarrow> ('r, 'u, 'k, 'c, 's) aiogoogle \<Rightarrow> json \<Rightarrow> json \<Rightarrow> bool
     \<Rightarrow> (error + google_api) \<times> ('r, 'u, 'k, 'c, 's) aiogoogle" where
  "discover env self api_name api_version validate_arg =
     (if api_version = JNull then
        (case list_api env self api_name (JBool True) JNull of
           (Inl e, self1) \<Rightarrow> (Inl e, self1)
         | (Inr discovery_list, self1) \<Rightarrow>
             (case getitem discovery_list ''items'' of
                Inl e \<Rightarrow> (Inl e, self1)
              | Inr items \<Rightarrow>
                  if py_bool items then
                    (case getitem0 items of
                       Inl e \<Rightarrow> (Inl e, self1)
                     | Inr item \<Rightarrow>
                         (case getitem item ''name'' of
                            Inl e \<Rightarrow> (Inl e, self1)
                          | Inr api_name' \<Rightarrow>
                              (case getitem item ''version'' of
                                 Inl e \<Rightarrow> (Inl e, self1)
                               | Inr api_version' \<Rightarrow>
                                   get_rest env self1 api_name' api_version' validate_arg)))
                  else (Inl (ValueError ''Invalid API name''), self1)))
      else get_rest env self api_name api_version validate_arg)"

section \<open>\<^verbatim>\<open>class AbstractSession\<close>\<close>

text \<open>
  What \<^verbatim>\<open>inspect.iscoroutinefunction\<close> tells apart: an \<^verbatim>\<open>async def\<close>, a plain
  \<^verbatim>\<open>def\<close>, and any other attribute.
\<close>

datatype member = CoroutineFunction | PlainFunction | OtherAttribute

fun iscoroutinefunction :: "member \<Rightarrow> bool" where
  "iscoroutinefunction CoroutineFunction = True"
| "iscoroutinefunction m = False"

text \<open>
  The members \<^verbatim>\<open>AbstractSession\<close> defines: \<^verbatim>\<open>__new__\<close> is a plain function and
  \<^verbatim>\<open>send\<close> is declared \<^verbatim>\<open>async def\<close>. (What it inherits from \<^verbatim>\<open>ABC\<close> and
  \<^verbatim>\<open>object\<close> holds no coroutine function.)
\<close>

definition AbstractSession_members :: "(string \<times> member) list" where
  "AbstractSession_members = [(''__new__'', PlainFunction), (''send'', CoroutineFunction)]"

text \<open>
  A subclass is the attributes that it and its other bases put before
  \<^verbatim>\<open>AbstractSession\<close>'s in the lookup order; \<^verbatim>\<open>getattr(cls, name)\<close> falls back on
  \<^verbatim>\<open>AbstractSession\<close>'s own.
\<close>

type_synonym session_class = "(string \<times> member) list"

definition getattr :: "session_class \<Rightarrow> string \<Rightarrow> error + member" where
  "getattr cls name =
     (case map_of cls name of
        Some m \<Rightarrow> Inr m
      | None \<Rightarrow>
          (case map_of AbstractSession_members name of
             Some m \<Rightarrow> Inr m
           | None \<Rightarrow> Inl (AttributeError name)))"

text \<open>
  \<^verbatim>\<open>
  def __new__(cls, *args, **kwargs):
      parent_abstract_coros = inspect.getmembers(AbstractSession, predicate=inspect.iscoroutinefunction)
      for coro in parent_abstract_coros:
          coro_name = coro[0]
          child_method = getattr(cls, coro_name)
          if not inspect.iscoroutinefunction(child_method):
              raise RuntimeError(f'{child_method} must be a coroutine')
      return super(AbstractSession, cls).__new__(cls, *args, **kwargs)
  \<close>
  The RuntimeError carries the name of the method in place of its \<^verbatim>\<open>repr\<close>.
  \<open>super_new\<close> is \<^verbatim>\<open>super(AbstractSession, cls).__new__\<close>, the constructor of the
  language, a parameter.
\<close>

definition parent_abstract_coros :: "(string \<times> member) list" where
  "parent_abstract_coros = filter (\<lambda>coro. iscoroutinefunction (snd coro)) AbstractSession_members"

fun ensure_coros :: "session_class \<Rightarrow> (string \<times> member) list \<Rightarrow> error + unit" where
  "ensure_coros cls [] = Inr ()"
| "ensure_coros cls (coro # coros) =
     (case getattr cls (fst coro) of
        Inl e \<Rightarrow> Inl e
      | Inr child_method \<Rightarrow>
          if \<not> iscoroutinefunction child_method
          then Inl (RuntimeError (fst coro @ '' must be a coroutine''))
          else ensure_coros cls coros)"

definition AbstractSession_new ::
  "(session_class \<Rightarrow> 'a \<Rightarrow> error + 'o) \<Rightarrow> session_class \<Rightarrow> 'a \<Rightarrow> error + 'o" where
  "AbstractSession_new super_new cls args =
     (case ensure_coros cls parent_abstract_coros of
        Inl e \<Rightarrow> Inl e
      | Inr u \<Rightarrow> super_new cls args)"

text \<open>
  \<^verbatim>\<open>super(AbstractSession, cls).__new__\<close> is \<^verbatim>\<open>object.__new__\<close>: \<^verbatim>\<open>ABC\<close> defines no
  \<^verbatim>\<open>__new__\<close> of its own. Python's \<^verbatim>\<open>object.__new__(cls, *args, **kwargs)\<close> raises
  TypeError when it is given any argument beyond the class and the class's \<^verbatim>\<open>__new__\<close> is
  not \<^verbatim>\<open>object.__new__\<close> itself, which holds of every subclass of \<^verbatim>\<open>AbstractSession\<close>;
  it raises TypeError for a class that is still abstract, here one in which \<^verbatim>\<open>send\<close>
  resolves to the abstract method of \<^verbatim>\<open>AbstractSession\<close>; otherwise it returns a new
  instance, which is represented by its class. \<open>args\<close> holds the positional and keyword
  arguments of the constructor call.
\<close>

definition object_new :: "session_class \<Rightarrow> 'a list \<Rightarrow> error + session_class" where
  "object_new cls args =
     (if args \<noteq> [] then
        Inl (TypeError ''object.__new__() takes exactly one argument (the type to instantiate)'')
      else if map_of cls ''send'' = None then
        Inl (TypeError ''Cannot instantiate abstract class with abstract method send'')
      else Inr cls)"

section \<open>Concrete collaborators\<close>

text \<open>
  A small world to run the model in: requests, credentials and keys are strings, sessions
  are numbered, the token \<open>''old''\<close> is the expired one and refreshing yields \<open>''new''\<close>,
  and the session answers every request in order.
\<close>

definition demo_env :: "(string, string, string, unit, nat, string list) env" where
  "demo_env =
     \<lparr>truthy = (\<lambda>u. u \<noteq> []),
      is_expired = (\<lambda>u. u = ''old''),
      refresh = (\<lambda>u c. Inr ''new''),
      oauth2_authorize = (\<lambda>r u. r @ '' Bearer '' @ u),
      api_key_authorize = (\<lambda>r k. r @ ''?key='' @ k),
      session_factory = (\<lambda>n. Inr n),
      session_send = (\<lambda>s rs t f. Inr (map (\<lambda>r. ''200 '' @ r) rs)),
      session_aenter = (\<lambda>s. Inr ()),
      session_aexit = (\<lambda>s. Inr ()),
      apis_list = (\<lambda>n p f. Inr ''list''),
      apis_getRest = (\<lambda>a v b. Inr ''getRest'')\<rparr>"

text \<open>
  The same world for the discovery calls: the session answers with decoded JSON. The
  directory has one API, \<open>youtube\<close> \<open>v3\<close>; any other name lists no items.
\<close>

definition demo_json_env :: "(string, string, string, unit, nat, json) env" where
  "demo_json_env =
     \<lparr>truthy = (\<lambda>u. u \<noteq> []),
      is_expired = (\<lambda>u. u = ''old''),
      refresh = (\<lambda>u c. Inr ''new''),
      oauth2_authorize = (\<lambda>r u. r @ '' Bearer '' @ u),
      api_key_authorize = (\<lambda>r k. r @ ''?key='' @ k),
      session_factory = (\<lambda>n. Inr n),
      session_send = (\<lambda>s rs t f.
        if rs = [''list youtube''] then
          Inr (JDict [(''kind'', JStr ''discovery#directoryList''),
                      (''items'', JList [JDict [(''name'', JStr ''youtube''),
                                                (''version'', JStr ''v3'')]])])
        else if rs = [''getRest youtube v3''] then
          Inr (JDict [(''name'', JStr ''youtube''), (''version'', JStr ''v3'')])
        else Inr (JDict [(''kind'', JStr ''discovery#directoryList''), (''items'', JList [])])),
      session_aenter = (\<lambda>s. Inr ()),
      session_aexit = (\<lambda>s. Inr ()),
      apis_list = (\<lambda>n p f. case n of JStr s \<Rightarrow> Inr (''list '' @ s)
                              | _ \<Rightarrow> Inl (TypeError ''name'')),
      apis_getRest = (\<lambda>a v b. case (a, v) of
                                (JStr s, JStr w) \<Rightarrow> Inr (''getRest '' @ s @ '' '' @ w)
                              | _ \<Rightarrow> Inl (TypeError ''api, version''))\<rparr>"

text \<open>A getRest request built with validation enabled.\<close>

fun validating_getRest :: "('r, 'u, 'k, 'c, 's) event \<Rightarrow> bool" where
  "validating_getRest (GetRestCall a v b) = b"
| "validating_getRest e = False"

section \<open>Sequences of calls on one object\<close>

text \<open>
  The public methods of \<^verbatim>\<open>Aiogoogle\<close>, as a caller invokes them one after another on
  the same object; a call that raises leaves the object as the method left it. Each call
  comes with the collaborators' behaviour during that call.
\<close>

datatype ('r, 'u, 'k) call =
    AsUser "'r list" "int option" bool "'u option"
  | AsApiKey "'r list" "int option" bool "'k option"
  | AsAnon "'r list" "int option" bool
  | ListApi json json json
  | Discover json json bool
  | Enter
  | Exit

fun run_call ::
  "('r, 'u, 'k, 'c, 's, json) env \<Rightarrow> ('r, 'u, 'k, 'c, 's) aiogoogle \<Rightarrow> ('r, 'u, 'k) call
     \<Rightarrow> ('r, 'u, 'k, 'c, 's) aiogoogle" where
  "run_call env self (AsUser requests timeout full_res user_creds_arg) =
     snd (as_user env self requests timeout full_res user_creds_arg)"
| "run_call env self (AsApiKey requests timeout full_res api_key_arg) =
     snd (as_api_key env self requests timeout full_res api_key_arg)"
| "run_call env self (AsAnon requests timeout full_res) =
     snd (as_anon env self requests timeout full_res)"
| "run_call env self (ListApi name preferred fields_arg) =
     snd (list_api env self name preferred fields_arg)"
| "run_call env self (Discover api_name api_version validate_arg) =
     snd (discover env self api_name api_version validate_arg)"
| "run_call env self Enter = snd (aenter env self)"
| "run_call env self Exit = snd (aexit env self)"

fun run_calls ::
  "('r, 'u, 'k, 'c, 's) aiogoogle \<Rightarrow> (('r, 'u, 'k, 'c, 's, json) env \<times> ('r, 'u, 'k) call) list
     \<Rightarrow> ('r, 'u, 'k, 'c, 's) aiogoogle" where
  "run_calls self [] = self"
| "run_calls self (ec # calls) = run_calls (run_call (fst ec) self (snd ec)) calls"

text \<open>
  What one call may do to the session slot, seen from outside. Either the call leaves the
  slot and the number of factory calls as they were; or the object had no session, the
  factory was called exactly once, and the slot holds what that call returned (nothing when
  it raised).
\<close>

definition factory_step ::
  "('r, 'u, 'k, 'c, 's, 'p) env \<Rightarrow> ('r, 'u, 'k, 'c, 's) aiogoogle \<Rightarrow> ('r, 'u, 'k, 'c, 's) aiogoogle
     \<Rightarrow> bool" where
  "factory_step env self self' =
     (active_session self' = active_session self \<and>
      factory_calls (events self') = factory_calls (events self)
      \<or>
      active_session self = None \<and>
      factory_calls (events self') = Suc (factory_calls (events self)) \<and>
      active_session self' =
        (case session_factory env (factory_calls (events self)) of
           Inl e \<Rightarrow> None
         | Inr sess \<Rightarrow> Some sess))"

text \<open>
  The number of calls in a sequence after which \<open>active_session\<close> is not what it was before
  the call: how often the session slot is assigned anew.
\<close>

fun session_assignments ::
  "('r, 'u, 'k, 'c, 's) aiogoogle \<Rightarrow> (('r, 'u, 'k, 'c, 's, json) env \<times> ('r, 'u, 'k) call) list
     \<Rightarrow> nat" where
  "session_assignments self [] = 0"
| "session_assignments self (ec # calls) =
     (if active_session (run_call (fst ec) self (snd ec)) \<noteq> active_session self then 1 else 0)
     + session_assignments (run_call (fst ec) self (snd ec)) calls"

section \<open>The dispatch primitive\<close>

lemma ensure_session_set_Some:
  "active_session self = Some sess \<Longrightarrow> ensure_session_set env self = (Inr (), self)"
  by (simp add: ensure_session_set_def)

lemma ensure_session_set_None:
  "active_session self = None \<Longrightarrow>
   ensure_session_set env self =
     (case session_factory env (factory_calls (events self)) of
        Inl e \<Rightarrow> (Inl e, self\<lparr>events := events self @ [FactoryCall (factory_calls (events self))]\<rparr>)
      | Inr sess \<Rightarrow>
          (Inr (), self\<lparr>events := events self @ [FactoryCall (factory_calls (events self))],
                         active_session := Some sess\<rparr>))"
  by (simp add: ensure_session_set_def Let_def split: sum.splits)

lemma send_Some:
  "active_session self = Some sess \<Longrightarrow>
   send env self args timeout full_res =
     (session_send env sess args timeout full_res,
      self\<lparr>events := events self @ [SendCall sess args timeout full_res]\<rparr>)"
  by (simp add: send_def ensure_session_set_Some)

lemma send_None_Inr:
  "active_session self = None \<Longrightarrow> session_factory env (factory_calls (events self)) = Inr sess \<Longrightarrow>
   send env self args timeout full_res =
     (session_send env sess args timeout full_res,
      self\<lparr>events := events self @ [FactoryCall (factory_calls (events self)),
                                         SendCall sess args timeout full_res],
            active_session := Some sess\<rparr>)"
  by (simp add: send_def ensure_session_set_None)

lemma send_None_Inl:
  "active_session self = None \<Longrightarrow> session_factory env (factory_calls (events self)) = Inl e \<Longrightarrow>
   send env self args timeout full_res =
     (Inl e, self\<lparr>events := events self @ [FactoryCall (factory_calls (events self))]\<rparr>)"
  by (simp add: send_def ensure_session_set_None)

text \<open>The three outcomes of send, by cases.\<close>

lemma send_cases:
  obtains (existing) sess where "active_session self = Some sess"
      "send env self args timeout full_res =
         (session_send env sess args timeout full_res,
          self\<lparr>events := events self @ [SendCall sess args timeout full_res]\<rparr>)"
  | (created) sess where "active_session self = None"
      "session_factory env (factory_calls (events self)) = Inr sess"
      "send env self args timeout full_res =
         (session_send env sess args timeout full_res,
          self\<lparr>events := events self @ [FactoryCall (factory_calls (events self)),
                                             SendCall sess args timeout full_res],
                active_session := Some sess\<rparr>)"
  | (failed) e where "active_session self = None"
      "session_factory env (factory_calls (events self)) = Inl e"
      "send env self args timeout full_res =
         (Inl e, self\<lparr>events := events self @ [FactoryCall (factory_calls (events self))]\<rparr>)"
proof (cases "active_session self")
  case None
  show ?thesis
  proof (cases "session_factory env (factory_calls (events self))")
    case (Inl e)
    show ?thesis by (rule failed [OF None Inl send_None_Inl [OF None Inl]])
  next
    case (Inr sess)
    show ?thesis by (rule created [OF None Inr send_None_Inr [OF None Inr]])
  qed
next
  case (Some sess)
  show ?thesis by (rule existing [OF Some send_Some [OF Some]])
qed

lemma send_user_creds [simp]: "user_creds (snd (send env self args timeout full_res)) = user_creds self"
  by (cases rule: send_cases [of self env args timeout full_res]) simp_all

lemma send_api_key [simp]: "api_key (snd (send env self args timeout full_res)) = api_key self"
  by (cases rule: send_cases [of self env args timeout full_res]) simp_all

lemma send_client_creds [simp]: "client_creds (snd (send env self args timeout full_res)) = client_creds self"
  by (cases rule: send_cases [of self env args timeout full_res]) simp_all

lemma send_tail:
  obtains tail where
    "events (snd (send env self args timeout full_res)) = events self @ tail"
    "filter is_refresh tail = []" "filter is_authorize tail = []"
    "filter is_getRest tail = []" "filter validating_getRest tail = []"
  by (cases rule: send_cases [of self env args timeout full_res]) simp_all

lemma no_refresh_in_authorize:
  "filter is_refresh (map (\<lambda>request. OAuth2Authorize request uc) requests) = []"
  by (induction requests) simp_all

lemma snd_wrap:
  "snd (case p of (Inl e, s) \<Rightarrow> (Inl e, s) | (Inr d, s) \<Rightarrow> (Inr (f d), s)) = snd p"
  by (simp split: prod.splits sum.splits)

section \<open>Anonymous dispatch\<close>

text \<open>
  Claim C6. \<^verbatim>\<open>as_anon\<close> hands the caller's batch to the dispatch primitive as it is:
  it is \<^verbatim>\<open>send\<close> on the same requests, timeout and flag; no request is authorized on
  the way; and whenever a session is in place afterwards, that session's \<^verbatim>\<open>send\<close> was
  called exactly once, with the caller's requests unchanged, and its answer is returned.
\<close>

theorem as_anon_unmodified:
  "as_anon env self requests timeout full_res = send env self requests timeout full_res \<and>
   filter is_authorize
     (drop (length (events self)) (events (snd (as_anon env self requests timeout full_res)))) = [] \<and>
   (\<forall>sess. active_session (snd (as_anon env self requests timeout full_res)) = Some sess \<longrightarrow>
      filter is_send
        (drop (length (events self)) (events (snd (as_anon env self requests timeout full_res))))
        = [SendCall sess requests timeout full_res] \<and>
      fst (as_anon env self requests timeout full_res) =
        session_send env sess requests timeout full_res)"
  unfolding as_anon_def
  by (cases rule: send_cases [of self env requests timeout full_res]) simp_all

theorem as_anon_unmodified_witness:
  "active_session (snd (as_anon demo_env (init None None None) [''a'', ''b''] None False)) = Some 0 \<and>
   filter is_send (events (snd (as_anon demo_env (init None None None) [''a'', ''b''] None False)))
     = [SendCall 0 [''a'', ''b''] None False] \<and>
   fst (as_anon demo_env (init None None None) [''a'', ''b''] None False) = Inr [''200 a'', ''200 b'']"
proof -
  have run: "as_anon demo_env (init None None None) [''a'', ''b''] None False =
      (Inr [''200 a'', ''200 b''],
       \<lparr>active_session = Some 0, api_key = None, user_creds = None, client_creds = None,
        events = [FactoryCall 0, SendCall 0 [''a'', ''b''] None False]\<rparr>)"
    by (simp add: as_anon_def init_def send_def ensure_session_set_def demo_env_def factory_calls_def)
  show ?thesis
    using as_anon_unmodified [of demo_env "init None None None" "[''a'', ''b'']" None False]
    unfolding run by (simp add: init_def)
qed

section \<open>Dispatch by API key\<close>

text \<open>
  Claim C2 says that \<^verbatim>\<open>as_api_key\<close> resolves the key as the \<^verbatim>\<open>api_key\<close> override
  when one is passed and the stored default otherwise. The method never reads its
  \<^verbatim>\<open>api_key\<close> keyword: with an override \<open>''K1''\<close> and no stored key it raises
  "No API key found", and with an override \<open>''K1''\<close> and a stored key \<open>''K2''\<close> the
  request is authorized with \<open>''K2''\<close>.
\<close>

theorem as_api_key_ignores_override:
  "as_api_key demo_env (init None None None) [''a''] None False (Some ''K1'') =
     (Inl (TypeError ''No API key found''), init None None None) \<and>
   fst (as_api_key demo_env (init (Some ''K2'') None None) [''a''] None False (Some ''K1'')) =
     Inr [''200 a?key=K2'']"
  by (simp add: as_api_key_def init_def send_def ensure_session_set_def demo_env_def factory_calls_def)

section \<open>Dispatch by user credentials\<close>

text \<open>
  Claim C4. With no \<^verbatim>\<open>user_creds\<close> override and no stored default, \<^verbatim>\<open>as_user\<close> raises
  TypeError "No user credentials were found" and leaves the object as it was, the log of
  calls included: nothing was refreshed, authorized or sent, and no session was created.
\<close>

theorem as_user_without_credentials:
  "user_creds self = None \<Longrightarrow>
   as_user env self requests timeout full_res None =
     (Inl (TypeError ''No user credentials were found''), self)"
  by (simp add: as_user_def py_or_def)

theorem as_user_without_credentials_witness:
  "user_creds (init None None None :: (string, string, string, unit, nat) aiogoogle) = None \<and>
   as_user demo_env (init None None None) [''a'', ''b''] None False None =
     (Inl (TypeError ''No user credentials were found''), init None None None) \<and>
   filter is_network (events (snd (as_user demo_env (init None None None) [''a'', ''b''] None False None))) = []"
  using as_user_without_credentials [of "init None None None" demo_env "[''a'', ''b'']" None False]
  by (simp add: init_def)

lemma as_user_fresh:
  "py_or (truthy env) user_creds_arg (user_creds self) = Some uc \<Longrightarrow> \<not> is_expired env uc \<Longrightarrow>
   as_user env self requests timeout full_res user_creds_arg =
     send env (self\<lparr>events := events self @ map (\<lambda>request. OAuth2Authorize request uc) requests\<rparr>)
       (map (\<lambda>request. oauth2_authorize env request uc) requests) timeout full_res"
  by (simp add: as_user_def)

lemma as_user_refresh_failed:
  "py_or (truthy env) user_creds_arg (user_creds self) = Some uc \<Longrightarrow> is_expired env uc \<Longrightarrow>
   refresh env uc (client_creds self) = Inl e \<Longrightarrow>
   as_user env self requests timeout full_res user_creds_arg =
     (Inl e, self\<lparr>events := events self @ [RefreshCall uc (client_creds self)]\<rparr>)"
  by (simp add: as_user_def)

lemma as_user_refreshed:
  "py_or (truthy env) user_creds_arg (user_creds self) = Some uc \<Longrightarrow> is_expired env uc \<Longrightarrow>
   refresh env uc (client_creds self) = Inr uc' \<Longrightarrow>
   as_user env self requests timeout full_res user_creds_arg =
     send env
       ((if user_creds self \<noteq> None then self\<lparr>user_creds := Some uc'\<rparr> else self)
          \<lparr>events := events self @
               RefreshCall uc (client_creds self) # map (\<lambda>request. OAuth2Authorize request uc') requests\<rparr>)
       (map (\<lambda>request. oauth2_authorize env request uc') requests) timeout full_res"
  by (simp add: as_user_def)

text \<open>
  Claim C1 says that after a refresh the new UserCreds are stored on the object if and
  only if the call used the stored default, and that an explicit override never changes
  the stored default. The source stores them whenever \<^verbatim>\<open>self.user_creds is not None\<close>,
  whoever supplied the credentials: an expired override \<open>''old''\<close> passed to an object
  whose stored default is \<open>''stored''\<close> leaves \<open>''new''\<close> in the stored slot.
\<close>

theorem as_user_override_overwrites_default:
  "user_creds (snd (as_user demo_env (init None (Some ''stored'') None) [''a''] None False (Some ''old'')))
     = Some ''new'' \<and>
   user_creds (snd (as_user demo_env (init None (Some ''stored'') None) [''a''] None False (Some ''old'')))
     \<noteq> user_creds (init None (Some ''stored'') None :: (string, string, string, unit, nat) aiogoogle)"
  by (simp add: as_user_def py_or_def init_def send_def ensure_session_set_def demo_env_def
      factory_calls_def)

text \<open>
  Claim C1, as the source has it. Called with effective UserCreds \<open>uc\<close>: if \<open>uc\<close> is
  expired and the refresh returns \<open>uc'\<close>, the stored default becomes \<open>uc'\<close> exactly when
  the object had a stored default (\<^verbatim>\<open>self.user_creds is not None\<close>), whether or not the
  caller passed an override, and stays \<^verbatim>\<open>None\<close> otherwise; if the refresh raises or
  \<open>uc\<close> is not expired, the stored default is unchanged.
\<close>

theorem as_user_persists_refreshed_creds:
  assumes "py_or (truthy env) user_creds_arg (user_creds self) = Some uc"
  shows "user_creds (snd (as_user env self requests timeout full_res user_creds_arg)) =
     (if is_expired env uc then
        (case refresh env uc (client_creds self) of
           Inl e \<Rightarrow> user_creds self
         | Inr uc' \<Rightarrow> if user_creds self \<noteq> None then Some uc' else None)
      else user_creds self)"
proof (cases "is_expired env uc")
  case False
  then show ?thesis by (simp add: as_user_fresh [OF assms])
next
  case True
  show ?thesis
  proof (cases "refresh env uc (client_creds self)")
    case (Inl e)
    then show ?thesis using True by (simp add: as_user_refresh_failed [OF assms])
  next
    case (Inr uc')
    then show ?thesis using True by (simp add: as_user_refreshed [OF assms])
  qed
qed

theorem as_user_persists_refreshed_creds_witness:
  "py_or (truthy demo_env) None (Some ''old'') = Some ''old'' \<and>
   user_creds (snd (as_user demo_env (init None (Some ''old'') None) [''a''] None False None)) = Some ''new'' \<and>
   py_or (truthy demo_env) (Some ''old'') None = Some ''old'' \<and>
   user_creds (snd (as_user demo_env (init None None None) [''a''] None False (Some ''old''))) = None \<and>
   py_or (truthy demo_env) (Some ''old'') (Some ''stored'') = Some ''old'' \<and>
   user_creds (snd (as_user demo_env (init None (Some ''stored'') None) [''a''] None False (Some ''old''))) = Some ''new'' \<and>
   py_or (truthy demo_env) None (Some ''stored'') = Some ''stored'' \<and>
   user_creds (snd (as_user demo_env (init None (Some ''stored'') None) [''a''] None False None)) = Some ''stored''"
proof -
  have p1: "py_or (truthy demo_env) None (user_creds (init None (Some ''old'') None :: (string, string, string, unit, nat) aiogoogle)) = Some ''old''"
    by (simp add: py_or_def init_def demo_env_def)
  have p2: "py_or (truthy demo_env) (Some ''old'') (user_creds (init None None None :: (string, string, string, unit, nat) aiogoogle)) = Some ''old''"
    by (simp add: py_or_def init_def demo_env_def)
  have p3: "py_or (truthy demo_env) (Some ''old'') (user_creds (init None (Some ''stored'') None :: (string, string, string, unit, nat) aiogoogle)) = Some ''old''"
    by (simp add: py_or_def init_def demo_env_def)
  have p4: "py_or (truthy demo_env) None (user_creds (init None (Some ''stored'') None :: (string, string, string, unit, nat) aiogoogle)) = Some ''stored''"
    by (simp add: py_or_def init_def demo_env_def)
  show ?thesis
    using as_user_persists_refreshed_creds [OF p1, of "[''a'']" None False]
      as_user_persists_refreshed_creds [OF p2, of "[''a'']" None False]
      as_user_persists_refreshed_creds [OF p3, of "[''a'']" None False]
      as_user_persists_refreshed_creds [OF p4, of "[''a'']" None False]
    by (simp add: py_or_def init_def demo_env_def)
qed

text \<open>
  Claim C3. Called with effective UserCreds \<open>uc\<close>, \<^verbatim>\<open>as_user\<close> only appends to the log
  of calls. When \<open>uc\<close> is expired the first call it makes is the refresh of \<open>uc\<close>, so
  the refresh precedes every authorization and the hand-over to the session, and no
  second refresh follows; when \<open>uc\<close> is not expired it makes no refresh at all.
\<close>

theorem as_user_refreshes_once_first:
  assumes "py_or (truthy env) user_creds_arg (user_creds self) = Some uc"
  shows "take (length (events self))
           (events (snd (as_user env self requests timeout full_res user_creds_arg))) = events self \<and>
    (is_expired env uc \<longrightarrow>
       take 1 (drop (length (events self))
                 (events (snd (as_user env self requests timeout full_res user_creds_arg))))
         = [RefreshCall uc (client_creds self)] \<and>
       filter (\<lambda>e. is_refresh e)
         (drop (Suc (length (events self)))
            (events (snd (as_user env self requests timeout full_res user_creds_arg)))) = []) \<and>
    (\<not> is_expired env uc \<longrightarrow>
       filter is_refresh
         (drop (length (events self))
            (events (snd (as_user env self requests timeout full_res user_creds_arg)))) = [])"
proof (cases "is_expired env uc")
  case False
  let ?auth = "map (\<lambda>request. OAuth2Authorize request uc) requests"
  let ?s = "self\<lparr>events := events self @ ?auth\<rparr>"
  let ?out = "send env ?s (map (\<lambda>request. oauth2_authorize env request uc) requests) timeout full_res"
  have eq: "as_user env self requests timeout full_res user_creds_arg = ?out"
    using False by (simp add: as_user_fresh [OF assms])
  obtain tail where ev: "events (snd ?out) = events ?s @ tail" and nr: "filter is_refresh tail = []"
    by (rule send_tail)
  show ?thesis
    using False by (simp add: eq ev nr no_refresh_in_authorize del: filter_map)
next
  case True
  show ?thesis
  proof (cases "refresh env uc (client_creds self)")
    case (Inl e)
    then show ?thesis using True by (simp add: as_user_refresh_failed [OF assms])
  next
    case (Inr uc')
    let ?auth = "map (\<lambda>request. OAuth2Authorize request uc') requests"
    define self2 where
      "self2 = (if user_creds self \<noteq> None then self\<lparr>user_creds := Some uc'\<rparr> else self)"
    let ?s = "self2\<lparr>events := events self @ RefreshCall uc (client_creds self) # ?auth\<rparr>"
    let ?out = "send env ?s (map (\<lambda>request. oauth2_authorize env request uc') requests) timeout full_res"
    have eq: "as_user env self requests timeout full_res user_creds_arg = ?out"
      unfolding self2_def using True Inr by (rule as_user_refreshed [OF assms])
    obtain tail where ev: "events (snd ?out) = events ?s @ tail" and nr: "filter is_refresh tail = []"
      by (rule send_tail)
    show ?thesis
      using True by (simp add: eq ev nr no_refresh_in_authorize del: filter_map)
  qed
qed

theorem as_user_refreshes_once_first_witness:
  "py_or (truthy demo_env) None (Some ''old'') = Some ''old'' \<and> is_expired demo_env ''old'' \<and>
   events (snd (as_user demo_env (init None (Some ''old'') None) [''a'', ''b''] None False None)) =
     [RefreshCall ''old'' None, OAuth2Authorize ''a'' ''new'', OAuth2Authorize ''b'' ''new'',
      FactoryCall 0, SendCall 0 [''a Bearer new'', ''b Bearer new''] None False] \<and>
   py_or (truthy demo_env) None (Some ''tok'') = Some ''tok'' \<and> \<not> is_expired demo_env ''tok'' \<and>
   events (snd (as_user demo_env (init None (Some ''tok'') None) [''a'', ''b''] None False None)) =
     [OAuth2Authorize ''a'' ''tok'', OAuth2Authorize ''b'' ''tok'',
      FactoryCall 0, SendCall 0 [''a Bearer tok'', ''b Bearer tok''] None False]"
proof -
  have p1: "py_or (truthy demo_env) None (user_creds (init None (Some ''old'') None :: (string, string, string, unit, nat) aiogoogle)) = Some ''old''"
    by (simp add: py_or_def init_def demo_env_def)
  have p2: "py_or (truthy demo_env) None (user_creds (init None (Some ''tok'') None :: (string, string, string, unit, nat) aiogoogle)) = Some ''tok''"
    by (simp add: py_or_def init_def demo_env_def)
  have run1: "events (snd (as_user demo_env (init None (Some ''old'') None) [''a'', ''b''] None False None)) =
     [RefreshCall ''old'' None, OAuth2Authorize ''a'' ''new'', OAuth2Authorize ''b'' ''new'',
      FactoryCall 0, SendCall 0 [''a Bearer new'', ''b Bearer new''] None False]"
    by (simp add: as_user_def py_or_def init_def send_def ensure_session_set_def demo_env_def
        factory_calls_def)
  have run2: "events (snd (as_user demo_env (init None (Some ''tok'') None) [''a'', ''b''] None False None)) =
     [OAuth2Authorize ''a'' ''tok'', OAuth2Authorize ''b'' ''tok'',
      FactoryCall 0, SendCall 0 [''a Bearer tok'', ''b Bearer tok''] None False]"
    by (simp add: as_user_def py_or_def init_def send_def ensure_session_set_def demo_env_def
        factory_calls_def)
  show ?thesis
    using as_user_refreshes_once_first [OF p1, of "[''a'', ''b'']" None False]
      as_user_refreshes_once_first [OF p2, of "[''a'', ''b'']" None False]
    unfolding run1 run2
    by (simp add: py_or_def init_def demo_env_def)
qed

lemma send_result:
  "active_session self = Some sess \<or>
     active_session self = None \<and> session_factory env (factory_calls (events self)) = Inr sess \<Longrightarrow>
   fst (send env self args timeout full_res) = session_send env sess args timeout full_res"
  by (auto simp add: send_Some send_None_Inr)

lemma factory_calls_authorize [simp]:
  "factory_calls (evs @ map (\<lambda>request. OAuth2Authorize request uc) requests) = factory_calls evs"
  "factory_calls (evs @ map (\<lambda>request. ApiKeyAuthorize request k) requests) = factory_calls evs"
  "factory_calls (evs @ RefreshCall uc c # map (\<lambda>request. OAuth2Authorize request uc') requests)
     = factory_calls evs"
  by (induction requests) (simp_all add: factory_calls_def)

text \<open>
  Claim C7. Let the session answer a batch request by request, in order
  (\<open>session_send\<close> is \<open>map\<close> of some \<open>respond\<close>), and let a session \<open>sess\<close> be
  available (active already, or made by the factory). Then each entry point that gets past
  its credential checks returns one response per request of the caller, in the caller's
  order: the \<open>i\<close>-th answer is the response to the \<open>i\<close>-th request (as authorized by
  that entry point).
\<close>

theorem dispatch_preserves_order:
  assumes ordered: "\<And>s rs t f. session_send env s rs t f = Inr (map (respond s t f) rs)"
      and session: "active_session self = Some sess \<or>
        active_session self = None \<and> session_factory env (factory_calls (events self)) = Inr sess"
  shows "fst (as_anon env self requests timeout full_res) =
      Inr (map (respond sess timeout full_res) requests) \<and>
    (\<forall>k. api_key self = Some k \<longrightarrow>
       fst (as_api_key env self requests timeout full_res api_key_arg) =
         Inr (map (\<lambda>request. respond sess timeout full_res (api_key_authorize env request k)) requests)) \<and>
    (\<forall>uc. py_or (truthy env) user_creds_arg (user_creds self) = Some uc \<longrightarrow> \<not> is_expired env uc \<longrightarrow>
       fst (as_user env self requests timeout full_res user_creds_arg) =
         Inr (map (\<lambda>request. respond sess timeout full_res (oauth2_authorize env request uc)) requests)) \<and>
    (\<forall>uc uc'. py_or (truthy env) user_creds_arg (user_creds self) = Some uc \<longrightarrow> is_expired env uc \<longrightarrow>
       refresh env uc (client_creds self) = Inr uc' \<longrightarrow>
       fst (as_user env self requests timeout full_res user_creds_arg) =
         Inr (map (\<lambda>request. respond sess timeout full_res (oauth2_authorize env request uc')) requests))"
proof (intro conjI allI impI)
  show "fst (as_anon env self requests timeout full_res) =
      Inr (map (respond sess timeout full_res) requests)"
    unfolding as_anon_def by (simp add: send_result [OF session] ordered)
next
  fix k assume k: "api_key self = Some k"
  let ?s = "self\<lparr>events := events self @ map (\<lambda>request. ApiKeyAuthorize request k) requests\<rparr>"
  have "active_session ?s = Some sess \<or>
        active_session ?s = None \<and> session_factory env (factory_calls (events ?s)) = Inr sess"
    using session by simp
  from send_result [OF this]
  show "fst (as_api_key env self requests timeout full_res api_key_arg) =
         Inr (map (\<lambda>request. respond sess timeout full_res (api_key_authorize env request k)) requests)"
    by (simp add: as_api_key_def k ordered comp_def)
next
  fix uc assume uc: "py_or (truthy env) user_creds_arg (user_creds self) = Some uc"
    and fresh: "\<not> is_expired env uc"
  let ?s = "self\<lparr>events := events self @ map (\<lambda>request. OAuth2Authorize request uc) requests\<rparr>"
  have "active_session ?s = Some sess \<or>
        active_session ?s = None \<and> session_factory env (factory_calls (events ?s)) = Inr sess"
    using session by simp
  from send_result [OF this]
  show "fst (as_user env self requests timeout full_res user_creds_arg) =
         Inr (map (\<lambda>request. respond sess timeout full_res (oauth2_authorize env request uc)) requests)"
    by (simp add: as_user_fresh [OF uc fresh] ordered comp_def)
next
  fix uc uc' assume uc: "py_or (truthy env) user_creds_arg (user_creds self) = Some uc"
    and expired: "is_expired env uc" and r: "refresh env uc (client_creds self) = Inr uc'"
  define self2 where
    "self2 = (if user_creds self \<noteq> None then self\<lparr>user_creds := Some uc'\<rparr> else self)"
  let ?s = "self2\<lparr>events := events self @
      RefreshCall uc (client_creds self) # map (\<lambda>request. OAuth2Authorize request uc') requests\<rparr>"
  have eq: "as_user env self requests timeout full_res user_creds_arg =
      send env ?s (map (\<lambda>request. oauth2_authorize env request uc') requests) timeout full_res"
    unfolding self2_def using expired r by (rule as_user_refreshed [OF uc])
  have "active_session self2 = active_session self"
    by (simp add: self2_def)
  then have "active_session ?s = Some sess \<or>
        active_session ?s = None \<and> session_factory env (factory_calls (events ?s)) = Inr sess"
    using session by simp
  from send_result [OF this]
  show "fst (as_user env self requests timeout full_res user_creds_arg) =
         Inr (map (\<lambda>request. respond sess timeout full_res (oauth2_authorize env request uc')) requests)"
    by (simp add: eq ordered comp_def)
qed

theorem dispatch_preserves_order_witness:
  "session_send demo_env = (\<lambda>s rs t f. Inr (map (\<lambda>r. ''200 '' @ r) rs)) \<and>
   session_factory demo_env 0 = Inr 0 \<and>
   fst (as_anon demo_env (init (Some ''K'') (Some ''old'') None)
          [''a'', ''b'', ''c'', ''d'', ''e''] None False) =
     Inr [''200 a'', ''200 b'', ''200 c'', ''200 d'', ''200 e''] \<and>
   fst (as_api_key demo_env (init (Some ''K'') (Some ''old'') None)
          [''a'', ''b'', ''c'', ''d'', ''e''] None False None) =
     Inr [''200 a?key=K'', ''200 b?key=K'', ''200 c?key=K'', ''200 d?key=K'', ''200 e?key=K''] \<and>
   fst (as_user demo_env (init (Some ''K'') (Some ''old'') None)
          [''a'', ''b'', ''c'', ''d'', ''e''] None False None) =
     Inr [''200 a Bearer new'', ''200 b Bearer new'', ''200 c Bearer new'', ''200 d Bearer new'',
          ''200 e Bearer new''] \<and>
   fst (as_user demo_env (init (Some ''K'') (Some ''old'') None)
          [''a'', ''b'', ''c'', ''d'', ''e''] None False (Some ''tok'')) =
     Inr [''200 a Bearer tok'', ''200 b Bearer tok'', ''200 c Bearer tok'', ''200 d Bearer tok'',
          ''200 e Bearer tok'']"
proof -
  let ?self = "init (Some ''K'') (Some ''old'') None :: (string, string, string, unit, nat) aiogoogle"
  have ordered: "\<And>s rs t f. session_send demo_env s rs t f = Inr (map ((\<lambda>s t f r. ''200 '' @ r) s t f) rs)"
    by (simp add: demo_env_def)
  have session: "active_session ?self = Some 0 \<or>
        active_session ?self = None \<and> session_factory demo_env (factory_calls (events ?self)) = Inr 0"
    by (simp add: init_def demo_env_def factory_calls_def)
  have k: "api_key ?self = Some ''K''"
    by (simp add: init_def)
  have p1: "py_or (truthy demo_env) None (user_creds ?self) = Some ''old''"
    by (simp add: py_or_def init_def demo_env_def)
  have p2: "py_or (truthy demo_env) (Some ''tok'') (user_creds ?self) = Some ''tok''"
    by (simp add: py_or_def init_def demo_env_def)
  have e1: "is_expired demo_env ''old''" and e2: "\<not> is_expired demo_env ''tok''"
    and r: "refresh demo_env ''old'' (client_creds ?self) = Inr ''new''"
    by (simp_all add: demo_env_def)
  note thm1 = dispatch_preserves_order [OF ordered session, of "[''a'', ''b'', ''c'', ''d'', ''e'']" None False None None]
  note thm2 = dispatch_preserves_order [OF ordered session, of "[''a'', ''b'', ''c'', ''d'', ''e'']" None False None "Some ''tok''"]
  have "fst (as_anon demo_env ?self [''a'', ''b'', ''c'', ''d'', ''e''] None False) =
     Inr [''200 a'', ''200 b'', ''200 c'', ''200 d'', ''200 e'']"
    using thm1 by simp
  moreover have "fst (as_api_key demo_env ?self [''a'', ''b'', ''c'', ''d'', ''e''] None False None) =
     Inr [''200 a?key=K'', ''200 b?key=K'', ''200 c?key=K'', ''200 d?key=K'', ''200 e?key=K'']"
    using thm1 k by (simp add: demo_env_def)
  moreover have "fst (as_user demo_env ?self [''a'', ''b'', ''c'', ''d'', ''e''] None False None) =
     Inr [''200 a Bearer new'', ''200 b Bearer new'', ''200 c Bearer new'', ''200 d Bearer new'',
          ''200 e Bearer new'']"
    using thm1 p1 e1 r by (simp add: demo_env_def)
  moreover have "fst (as_user demo_env ?self [''a'', ''b'', ''c'', ''d'', ''e''] None False (Some ''tok'')) =
     Inr [''200 a Bearer tok'', ''200 b Bearer tok'', ''200 c Bearer tok'', ''200 d Bearer tok'',
          ''200 e Bearer tok'']"
    using thm2 p2 e2 by (simp add: demo_env_def)
  moreover have "session_send demo_env = (\<lambda>s rs t f. Inr (map (\<lambda>r. ''200 '' @ r) rs))"
    and "session_factory demo_env 0 = Inr 0"
    by (simp_all add: demo_env_def)
  ultimately show ?thesis by simp
qed

section \<open>The coroutine check of \<^verbatim>\<open>AbstractSession.__new__\<close>\<close>

lemma parent_abstract_coros_send: "parent_abstract_coros = [(''send'', CoroutineFunction)]"
  by (simp add: parent_abstract_coros_def AbstractSession_members_def)

lemma ensure_coros_ok:
  "\<forall>coro \<in> set coros. \<exists>m. getattr cls (fst coro) = Inr m \<and> iscoroutinefunction m \<Longrightarrow>
   ensure_coros cls coros = Inr ()"
  by (induction coros) auto

lemma AbstractSession_new_non_coroutine:
  "(\<exists>m. getattr cls ''send'' = Inr m \<and> \<not> iscoroutinefunction m) \<Longrightarrow>
   AbstractSession_new super_new cls args = Inl (RuntimeError ''send must be a coroutine'')"
  by (auto simp add: AbstractSession_new_def parent_abstract_coros_send)

lemma AbstractSession_new_all_coroutines:
  "\<forall>coro \<in> set parent_abstract_coros. \<exists>m. getattr cls (fst coro) = Inr m \<and> iscoroutinefunction m \<Longrightarrow>
   AbstractSession_new super_new cls args = super_new cls args"
  by (simp add: AbstractSession_new_def ensure_coros_ok)

lemma AbstractSession_new_with_arguments:
  "args \<noteq> [] \<Longrightarrow> AbstractSession_new object_new cls args \<noteq> Inr obj"
  by (simp add: AbstractSession_new_def object_new_def split: sum.splits)

text \<open>
  Claim C8. Its first half holds: a subclass whose \<^verbatim>\<open>send\<close> is not a coroutine function
  gets RuntimeError from \<^verbatim>\<open>__new__\<close>, whatever the arguments. Its second half, that a
  subclass whose methods are all coroutine functions constructs normally, fails as soon as
  the constructor is given an argument: \<^verbatim>\<open>__new__\<close> forwards \<^verbatim>\<open>*args, **kwargs\<close> to
  \<^verbatim>\<open>object.__new__\<close>, which raises TypeError, although the line is commented "Resume with
  normal behavior of a Python constructor" and the docstring of \<^verbatim>\<open>Aiogoogle\<close> shows
  \<^verbatim>\<open>Session(your_custome_arg, your_custom_kwarg=True)\<close>. Below, a subclass with an
  \<^verbatim>\<open>async def send\<close> and an \<^verbatim>\<open>__init__\<close>: constructed with one argument it raises
  TypeError; with none it is constructed; with a plain \<^verbatim>\<open>send\<close> it raises RuntimeError.
\<close>

theorem AbstractSession_new_forwards_arguments:
  "AbstractSession_new object_new
     [(''send'', CoroutineFunction), (''__init__'', PlainFunction)] [''your_custom_arg''] =
     Inl (TypeError ''object.__new__() takes exactly one argument (the type to instantiate)'') \<and>
   AbstractSession_new object_new
     [(''send'', CoroutineFunction), (''__init__'', PlainFunction)] ([] :: string list) =
     Inr [(''send'', CoroutineFunction), (''__init__'', PlainFunction)] \<and>
   AbstractSession_new object_new
     [(''send'', PlainFunction), (''__init__'', PlainFunction)] [''your_custom_arg''] =
     Inl (RuntimeError ''send must be a coroutine'')"
  by (simp add: AbstractSession_new_def object_new_def parent_abstract_coros_def
      AbstractSession_members_def getattr_def)

section \<open>The session is created once\<close>

lemma factory_calls_append [simp]:
  "factory_calls (evs @ evs') = factory_calls evs + factory_calls evs'"
  by (simp add: factory_calls_def)

lemma factory_calls_Nil [simp]: "factory_calls [] = 0"
  by (simp add: factory_calls_def)

lemma factory_calls_Cons [simp]:
  "factory_calls (e # evs) = (if is_factory e then 1 else 0) + factory_calls evs"
  by (simp add: factory_calls_def)

lemma factory_calls_map [simp]:
  "factory_calls (map (\<lambda>request. OAuth2Authorize request uc) requests) = 0"
  "factory_calls (map (\<lambda>request. ApiKeyAuthorize request k) requests) = 0"
  by (induction requests) (simp_all add: factory_calls_def)

lemma as_anon_keeps:
  "active_session self = Some sess \<Longrightarrow>
   active_session (snd (as_anon env self requests timeout full_res)) = Some sess \<and>
   factory_calls (events (snd (as_anon env self requests timeout full_res))) = factory_calls (events self)"
  by (simp add: as_anon_def send_Some)

lemma as_api_key_keeps:
  "active_session self = Some sess \<Longrightarrow>
   active_session (snd (as_api_key env self requests timeout full_res api_key_arg)) = Some sess \<and>
   factory_calls (events (snd (as_api_key env self requests timeout full_res api_key_arg)))
     = factory_calls (events self)"
  by (cases "api_key self") (simp_all add: as_api_key_def send_Some)

lemma as_user_keeps:
  assumes that: "active_session self = Some sess"
  shows "active_session (snd (as_user env self requests timeout full_res user_creds_arg)) = Some sess \<and>
   factory_calls (events (snd (as_user env self requests timeout full_res user_creds_arg)))
     = factory_calls (events self)"
proof (cases "py_or (truthy env) user_creds_arg (user_creds self)")
  case None
  then show ?thesis using that by (simp add: as_user_def)
next
  case (Some uc)
  show ?thesis
  proof (cases "is_expired env uc")
    case False
    then show ?thesis using that by (simp add: as_user_fresh [OF Some] send_Some)
  next
    case True
    show ?thesis
    proof (cases "refresh env uc (client_creds self)")
      case (Inl e)
      then show ?thesis using that True by (simp add: as_user_refresh_failed [OF Some])
    next
      case (Inr uc')
      then show ?thesis using that True by (simp add: as_user_refreshed [OF Some] send_Some)
    qed
  qed
qed

lemma aenter_keeps:
  "active_session self = Some sess \<Longrightarrow>
   active_session (snd (aenter env self)) = Some sess \<and>
   factory_calls (events (snd (aenter env self))) = factory_calls (events self)"
  by (simp add: aenter_def ensure_session_set_Some)

lemma aexit_keeps:
  "active_session self = Some sess \<Longrightarrow>
   active_session (snd (aexit env self)) = Some sess \<and>
   factory_calls (events (snd (aexit env self))) = factory_calls (events self)"
  by (simp add: aexit_def)

lemma list_api_keeps:
  "active_session self = Some sess \<Longrightarrow>
   active_session (snd (list_api env self name preferred fields_arg)) = Some sess \<and>
   factory_calls (events (snd (list_api env self name preferred fields_arg))) = factory_calls (events self)"
  by (simp add: list_api_def Let_def as_anon_def send_Some split: sum.splits)

lemma get_rest_keeps:
  "active_session self = Some sess \<Longrightarrow>
   active_session (snd (get_rest env self api_name api_version validate_arg)) = Some sess \<and>
   factory_calls (events (snd (get_rest env self api_name api_version validate_arg)))
     = factory_calls (events self)"
  by (simp add: get_rest_def Let_def as_anon_def send_Some split: sum.splits)

lemma discover_keeps:
  assumes "active_session self = Some sess"
  shows "active_session (snd (discover env self api_name api_version validate_arg)) = Some sess \<and>
   factory_calls (events (snd (discover env self api_name api_version validate_arg)))
     = factory_calls (events self)"
proof (cases "api_version = JNull")
  case False
  then show ?thesis using get_rest_keeps [OF assms] by (simp add: discover_def)
next
  case True
  obtain res self1 where l: "list_api env self api_name (JBool True) JNull = (res, self1)"
    by (cases "list_api env self api_name (JBool True) JNull")
  from list_api_keeps [OF assms, of env api_name "JBool True" JNull] l
  have k1: "active_session self1 = Some sess"
    and f1: "factory_calls (events self1) = factory_calls (events self)"
    by simp_all
  show ?thesis
    using True l k1 f1 get_rest_keeps [OF k1]
    by (simp add: discover_def split: sum.splits)
qed

lemma run_call_keeps:
  "active_session self = Some sess \<Longrightarrow>
   active_session (run_call env self c) = Some sess \<and>
   factory_calls (events (run_call env self c)) = factory_calls (events self)"
  by (cases c)
    (simp_all add: as_user_keeps as_api_key_keeps as_anon_keeps list_api_keeps discover_keeps
      aenter_keeps aexit_keeps)

lemma run_calls_keeps:
  "active_session self = Some sess \<Longrightarrow>
   active_session (run_calls self calls) = Some sess \<and>
   factory_calls (events (run_calls self calls)) = factory_calls (events self)"
proof (induction calls arbitrary: self)
  case Nil
  then show ?case by simp
next
  case (Cons ec calls)
  from run_call_keeps [OF Cons.prems, of "fst ec" "snd ec"]
  have a: "active_session (run_call (fst ec) self (snd ec)) = Some sess"
    and f: "factory_calls (events (run_call (fst ec) self (snd ec))) = factory_calls (events self)"
    by simp_all
  from Cons.IH [OF a] f show ?case by simp
qed

lemma factory_step_same:
  "active_session self' = active_session self \<Longrightarrow>
   factory_calls (events self') = factory_calls (events self) \<Longrightarrow> factory_step env self self'"
  by (simp add: factory_step_def)

lemma factory_step_cong:
  "factory_step env self a \<Longrightarrow> active_session b = active_session a \<Longrightarrow>
   factory_calls (events b) = factory_calls (events a) \<Longrightarrow> factory_step env self b"
  by (simp add: factory_step_def)

lemma send_factory_step:
  assumes "active_session s = active_session self"
      and "factory_calls (events s) = factory_calls (events self)"
  shows "factory_step env self (snd (send env s args timeout full_res))"
  using assms
  by (cases rule: send_cases [of s env args timeout full_res]) (simp_all add: factory_step_def)

lemma send_Inr_session:
  "fst (send env s args timeout full_res) = Inr r \<Longrightarrow>
   \<exists>sess. active_session (snd (send env s args timeout full_res)) = Some sess"
  by (cases rule: send_cases [of s env args timeout full_res]) simp_all

lemma as_anon_factory_step:
  "factory_step env self (snd (as_anon env self requests timeout full_res))"
  unfolding as_anon_def by (rule send_factory_step) simp_all

lemma as_api_key_factory_step:
  "factory_step env self (snd (as_api_key env self requests timeout full_res api_key_arg))"
proof (cases "api_key self")
  case None
  then show ?thesis by (simp add: as_api_key_def factory_step_def)
next
  case (Some k)
  then show ?thesis by (simp add: as_api_key_def send_factory_step)
qed

lemma as_user_factory_step:
  "factory_step env self (snd (as_user env self requests timeout full_res user_creds_arg))"
proof (cases "py_or (truthy env) user_creds_arg (user_creds self)")
  case None
  then show ?thesis by (simp add: as_user_def factory_step_def)
next
  case (Some uc)
  show ?thesis
  proof (cases "is_expired env uc")
    case False
    then show ?thesis by (simp add: as_user_fresh [OF Some] send_factory_step)
  next
    case True
    show ?thesis
    proof (cases "refresh env uc (client_creds self)")
      case (Inl e)
      then show ?thesis using True
        by (simp add: as_user_refresh_failed [OF Some] factory_step_def)
    next
      case (Inr uc')
      then show ?thesis using True
        by (simp add: as_user_refreshed [OF Some] send_factory_step)
    qed
  qed
qed

lemma aenter_None_Inr:
  "active_session self = None \<Longrightarrow> session_factory env (factory_calls (events self)) = Inr sess \<Longrightarrow>
   aenter env self =
     (session_aenter env sess,
      self\<lparr>events := events self @ [FactoryCall (factory_calls (events self)), EnterCall sess],
            active_session := Some sess\<rparr>)"
  by (simp add: aenter_def ensure_session_set_None)

lemma aenter_factory_step: "factory_step env self (snd (aenter env self))"
proof (cases "active_session self")
  case (Some sess)
  then show ?thesis by (simp add: aenter_def ensure_session_set_Some factory_step_def)
next
  case None
  then show ?thesis
    by (cases "session_factory env (factory_calls (events self))")
      (simp_all add: aenter_def ensure_session_set_None factory_step_def)
qed

lemma aexit_factory_step: "factory_step env self (snd (aexit env self))"
  by (cases "active_session self") (simp_all add: aexit_def factory_step_def)

lemma list_api_factory_step:
  "factory_step env self (snd (list_api env self name preferred fields_arg))"
proof (cases "apis_list env name preferred fields_arg")
  case (Inl e)
  then show ?thesis by (simp add: list_api_def factory_step_def)
next
  case (Inr request)
  then show ?thesis by (simp add: list_api_def as_anon_def send_factory_step)
qed

lemma list_api_Inr_session:
  assumes "list_api env self name preferred fields_arg = (Inr r, self1)"
  shows "\<exists>sess. active_session self1 = Some sess"
proof (cases "apis_list env name preferred fields_arg")
  case (Inl e)
  then show ?thesis using assms by (simp add: list_api_def)
next
  case (Inr request)
  let ?s = "self\<lparr>events := events self @ [ListCall name preferred fields_arg]\<rparr>"
  have "send env ?s [request] None False = (Inr r, self1)"
    using assms Inr by (simp add: list_api_def as_anon_def)
  then show ?thesis
    using send_Inr_session [of env ?s "[request]" None False r] by simp
qed

lemma get_rest_factory_step:
  "factory_step env self (snd (get_rest env self api_name api_version validate_arg))"
proof (cases "apis_getRest env api_name api_version False")
  case (Inl e)
  then show ?thesis by (simp add: get_rest_def factory_step_def)
next
  case (Inr request)
  then show ?thesis by (simp add: get_rest_def as_anon_def snd_wrap send_factory_step)
qed

lemma discover_factory_step:
  "factory_step env self (snd (discover env self api_name api_version validate_arg))"
proof (cases "api_version = JNull")
  case False
  then show ?thesis by (simp add: discover_def get_rest_factory_step)
next
  case True
  obtain res self1 where l: "list_api env self api_name (JBool True) JNull = (res, self1)"
    by (cases "list_api env self api_name (JBool True) JNull")
  have step1: "factory_step env self self1"
    using list_api_factory_step [of env self api_name "JBool True" JNull] l by simp
  show ?thesis
  proof (cases res)
    case (Inl e)
    then show ?thesis using True l step1 by (simp add: discover_def)
  next
    case (Inr discovery_list)
    have "list_api env self api_name (JBool True) JNull = (Inr discovery_list, self1)"
      using l Inr by simp
    from list_api_Inr_session [OF this]
    obtain sess where k1: "active_session self1 = Some sess" ..
    have go: "factory_step env self (snd (get_rest env self1 a v validate_arg))" for a v
      using get_rest_keeps [OF k1, of env a v validate_arg] k1
      by (intro factory_step_cong [OF step1]) simp_all
    show ?thesis
      using True l Inr step1 go by (simp add: discover_def split: sum.splits)
  qed
qed

lemma run_call_factory_step: "factory_step env self (run_call env self c)"
  by (cases c)
    (simp_all add: as_user_factory_step as_api_key_factory_step as_anon_factory_step
      list_api_factory_step discover_factory_step aenter_factory_step aexit_factory_step)

lemma run_calls_append: "run_calls self (calls @ calls') = run_calls (run_calls self calls) calls'"
  by (induction calls arbitrary: self) simp_all

lemma session_assignments_bound:
  "session_assignments self calls \<le> (if active_session self = None then 1 else 0)"
proof (induction calls arbitrary: self)
  case Nil
  then show ?case by simp
next
  case (Cons ec calls)
  let ?s = "run_call (fst ec) self (snd ec)"
  have step: "factory_step (fst ec) self ?s"
    by (rule run_call_factory_step)
  have ih: "session_assignments ?s calls \<le> (if active_session ?s = None then 1 else 0)"
    by (rule Cons.IH)
  show ?case
  proof (cases "active_session ?s = active_session self")
    case True
    then show ?thesis using ih by simp
  next
    case False
    then have none: "active_session self = None" and some: "active_session ?s \<noteq> None"
      using step by (auto simp add: factory_step_def)
    from ih some have "session_assignments ?s calls = 0"
      by simp
    then show ?thesis using none by simp
  qed
qed

lemma as_api_key_creates:
  assumes "active_session self = None"
      and "session_factory env (factory_calls (events self)) = Inr sess"
      and "api_key self = Some k"
  shows "active_session (snd (as_api_key env self requests timeout full_res api_key_arg)) = Some sess"
proof -
  let ?s = "self\<lparr>events := events self @ map (\<lambda>request. ApiKeyAuthorize request k) requests\<rparr>"
  have "active_session ?s = None" and "session_factory env (factory_calls (events ?s)) = Inr sess"
    using assms by simp_all
  from send_None_Inr [OF this] show ?thesis
    using assms(3) by (simp add: as_api_key_def)
qed

lemma as_user_creates:
  assumes none: "active_session self = None"
      and made: "session_factory env (factory_calls (events self)) = Inr sess"
      and uc: "py_or (truthy env) user_creds_arg (user_creds self) = Some uc"
      and ok: "\<not> is_expired env uc \<or> (\<exists>uc'. refresh env uc (client_creds self) = Inr uc')"
  shows "active_session (snd (as_user env self requests timeout full_res user_creds_arg)) = Some sess"
proof (cases "is_expired env uc")
  case False
  let ?s = "self\<lparr>events := events self @ map (\<lambda>request. OAuth2Authorize request uc) requests\<rparr>"
  have "active_session ?s = None" and "session_factory env (factory_calls (events ?s)) = Inr sess"
    using none made by simp_all
  from send_None_Inr [OF this] show ?thesis
    by (simp add: as_user_fresh [OF uc False])
next
  case True
  then obtain uc' where r: "refresh env uc (client_creds self) = Inr uc'"
    using ok by blast
  define self2 where
    "self2 = (if user_creds self \<noteq> None then self\<lparr>user_creds := Some uc'\<rparr> else self)"
  let ?s = "self2\<lparr>events := events self @
      RefreshCall uc (client_creds self) # map (\<lambda>request. OAuth2Authorize request uc') requests\<rparr>"
  have eq: "as_user env self requests timeout full_res user_creds_arg =
      send env ?s (map (\<lambda>request. oauth2_authorize env request uc') requests) timeout full_res"
    unfolding self2_def using True r by (rule as_user_refreshed [OF uc])
  have "active_session self2 = None"
    using none by (simp add: self2_def)
  then have "active_session ?s = None" and "session_factory env (factory_calls (events ?s)) = Inr sess"
    using made by simp_all
  from send_None_Inr [OF this] show ?thesis
    by (simp add: eq)
qed

text \<open>
  Claim C5. \<^verbatim>\<open>_ensure_session_set\<close> leaves an object that has a session exactly as it
  is. On an object without one, when the factory returns \<open>sess\<close>: \<^verbatim>\<open>_ensure_session_set\<close>
  stores \<open>sess\<close>; the dispatch primitive \<^verbatim>\<open>send\<close> and \<^verbatim>\<open>as_anon\<close> call the factory
  once, store \<open>sess\<close> and send through it; \<^verbatim>\<open>__aenter__\<close> calls the factory once, stores
  \<open>sess\<close> and enters it; \<^verbatim>\<open>as_api_key\<close> and \<^verbatim>\<open>as_user\<close>, once past their credential
  steps, leave \<open>sess\<close> stored. Every call of a public method is a \<open>factory_step\<close>: it
  calls the factory at most once, only on an object without a session, and what the
  factory returned is what is stored. Once a sequence of calls has left a session \<open>sess\<close>
  on the object, no continuation of it replaces \<open>sess\<close> or calls the factory again. So
  along any sequence of calls, on a fresh instance in particular, the session slot is
  assigned at most once.
\<close>

theorem session_created_at_most_once:
  "(active_session self = Some sess \<longrightarrow> ensure_session_set env self = (Inr (), self)) \<and>
   (active_session self = None \<and> session_factory env (factory_calls (events self)) = Inr sess \<longrightarrow>
      ensure_session_set env self =
        (Inr (), self\<lparr>events := events self @ [FactoryCall (factory_calls (events self))],
                       active_session := Some sess\<rparr>) \<and>
      send env self requests timeout full_res =
        (session_send env sess requests timeout full_res,
         self\<lparr>events := events self @ [FactoryCall (factory_calls (events self)),
                                            SendCall sess requests timeout full_res],
               active_session := Some sess\<rparr>) \<and>
      as_anon env self requests timeout full_res =
        (session_send env sess requests timeout full_res,
         self\<lparr>events := events self @ [FactoryCall (factory_calls (events self)),
                                            SendCall sess requests timeout full_res],
               active_session := Some sess\<rparr>) \<and>
      aenter env self =
        (session_aenter env sess,
         self\<lparr>events := events self @ [FactoryCall (factory_calls (events self)), EnterCall sess],
               active_session := Some sess\<rparr>) \<and>
      (\<forall>k. api_key self = Some k \<longrightarrow>
         active_session (snd (as_api_key env self requests timeout full_res api_key_arg)) = Some sess) \<and>
      (\<forall>uc. py_or (truthy env) user_creds_arg (user_creds self) = Some uc \<longrightarrow>
         (\<not> is_expired env uc \<or> (\<exists>uc'. refresh env uc (client_creds self) = Inr uc')) \<longrightarrow>
         active_session (snd (as_user env self requests timeout full_res user_creds_arg)) = Some sess)) \<and>
   factory_step envj self (run_call envj self c) \<and>
   (active_session (run_calls self calls) = Some sess \<longrightarrow>
      active_session (run_calls self (calls @ calls')) = Some sess \<and>
      factory_calls (events (run_calls self (calls @ calls'))) =
        factory_calls (events (run_calls self calls))) \<and>
   session_assignments self calls \<le> (if active_session self = None then 1 else 0) \<and>
   session_assignments (init api_key0 user_creds0 client_creds0) calls0 \<le> 1"
proof (intro conjI impI allI)
  assume "active_session self = Some sess"
  then show "ensure_session_set env self = (Inr (), self)"
    by (rule ensure_session_set_Some)
next
  assume a: "active_session self = None \<and> session_factory env (factory_calls (events self)) = Inr sess"
  then show "ensure_session_set env self =
        (Inr (), self\<lparr>events := events self @ [FactoryCall (factory_calls (events self))],
                       active_session := Some sess\<rparr>)"
    by (simp add: ensure_session_set_None)
  from a show "send env self requests timeout full_res =
        (session_send env sess requests timeout full_res,
         self\<lparr>events := events self @ [FactoryCall (factory_calls (events self)),
                                            SendCall sess requests timeout full_res],
               active_session := Some sess\<rparr>)"
    by (simp add: send_None_Inr)
  from a show "as_anon env self requests timeout full_res =
        (session_send env sess requests timeout full_res,
         self\<lparr>events := events self @ [FactoryCall (factory_calls (events self)),
                                            SendCall sess requests timeout full_res],
               active_session := Some sess\<rparr>)"
    by (simp add: as_anon_def send_None_Inr)
  from a show "aenter env self =
        (session_aenter env sess,
         self\<lparr>events := events self @ [FactoryCall (factory_calls (events self)), EnterCall sess],
               active_session := Some sess\<rparr>)"
    by (simp add: aenter_None_Inr)
  {
    fix k assume "api_key self = Some k"
    with a show "active_session (snd (as_api_key env self requests timeout full_res api_key_arg)) = Some sess"
      by (simp add: as_api_key_creates)
  }
  {
    fix uc assume "py_or (truthy env) user_creds_arg (user_creds self) = Some uc"
      and "\<not> is_expired env uc \<or> (\<exists>uc'. refresh env uc (client_creds self) = Inr uc')"
    with a show "active_session (snd (as_user env self requests timeout full_res user_creds_arg)) = Some sess"
      by (intro as_user_creates) simp_all
  }
next
  show "factory_step envj self (run_call envj self c)"
    by (rule run_call_factory_step)
next
  assume "active_session (run_calls self calls) = Some sess"
  from run_calls_keeps [OF this, of calls']
  show "active_session (run_calls self (calls @ calls')) = Some sess"
    and "factory_calls (events (run_calls self (calls @ calls'))) =
        factory_calls (events (run_calls self calls))"
    by (simp_all add: run_calls_append)
next
  show "session_assignments self calls \<le> (if active_session self = None then 1 else 0)"
    by (rule session_assignments_bound)
next
  show "session_assignments (init api_key0 user_creds0 client_creds0) calls0 \<le> 1"
    using session_assignments_bound [of "init api_key0 user_creds0 client_creds0" calls0]
    by (simp add: init_def)
qed

theorem session_created_at_most_once_witness:
  "active_session (init (Some ''K'') (Some ''old'') None :: (string, string, string, unit, nat) aiogoogle) = None \<and>
   session_factory demo_json_env 0 = Inr 0 \<and>
   snd (send demo_json_env (init (Some ''K'') (Some ''old'') None) [''a''] None False) =
     \<lparr>active_session = Some 0, api_key = Some ''K'', user_creds = Some ''old'',
      client_creds = None, events = [FactoryCall 0, SendCall 0 [''a''] None False]\<rparr> \<and>
   aenter demo_json_env (init (Some ''K'') (Some ''old'') None) =
     (Inr (), \<lparr>active_session = Some 0, api_key = Some ''K'', user_creds = Some ''old'',
               client_creds = None, events = [FactoryCall 0, EnterCall 0]\<rparr>) \<and>
   active_session (snd (as_anon demo_json_env (init (Some ''K'') (Some ''old'') None)
                          [''a''] None False)) = Some 0 \<and>
   active_session (snd (as_api_key demo_json_env (init (Some ''K'') (Some ''old'') None)
                          [''a''] None False None)) = Some 0 \<and>
   active_session (snd (as_user demo_json_env (init (Some ''K'') (Some ''old'') None)
                          [''a''] None False None)) = Some 0 \<and>
   ensure_session_set demo_json_env
     \<lparr>active_session = Some 0, api_key = Some ''K'', user_creds = Some ''old'',
      client_creds = None, events = [FactoryCall 0, SendCall 0 [''a''] None False]\<rparr> =
     (Inr (), \<lparr>active_session = Some 0, api_key = Some ''K'', user_creds = Some ''old'',
               client_creds = None, events = [FactoryCall 0, SendCall 0 [''a''] None False]\<rparr>) \<and>
   active_session
     (run_calls (init (Some ''K'') (Some ''old'') None)
        [(demo_json_env, AsAnon [''a''] None False),
         (demo_json_env, AsApiKey [''b''] None False None),
         (demo_json_env, AsUser [''c''] None False None),
         (demo_json_env, Discover (JStr ''youtube'') JNull True),
         (demo_json_env, Enter)]) = Some 0 \<and>
   factory_calls (events
     (run_calls (init (Some ''K'') (Some ''old'') None)
        [(demo_json_env, AsAnon [''a''] None False),
         (demo_json_env, AsApiKey [''b''] None False None),
         (demo_json_env, AsUser [''c''] None False None),
         (demo_json_env, Discover (JStr ''youtube'') JNull True),
         (demo_json_env, Enter)])) = 1 \<and>
   session_assignments (init (Some ''K'') (Some ''old'') None)
        [(demo_json_env, AsAnon [''a''] None False),
         (demo_json_env, AsApiKey [''b''] None False None),
         (demo_json_env, AsUser [''c''] None False None),
         (demo_json_env, Discover (JStr ''youtube'') JNull True),
         (demo_json_env, Enter)] \<le> 1"
proof -
  let ?s0 = "init (Some ''K'') (Some ''old'') None :: (string, string, string, unit, nat) aiogoogle"
  let ?s1 = "\<lparr>active_session = Some 0, api_key = Some ''K'', user_creds = Some ''old'',
      client_creds = None, events = [FactoryCall 0, SendCall 0 [''a''] None False]\<rparr>
      :: (string, string, string, unit, nat) aiogoogle"
  let ?first = "[(demo_json_env, AsAnon [''a''] None False)]"
  let ?rest = "[(demo_json_env, AsApiKey [''b''] None False None),
         (demo_json_env, AsUser [''c''] None False None),
         (demo_json_env, Discover (JStr ''youtube'') JNull True),
         (demo_json_env, Enter)]"
  note fresh = session_created_at_most_once
    [where self = ?s0 and sess = 0 and env = demo_json_env and requests = "[''a'']"
       and timeout = None and full_res = False and api_key_arg = None and user_creds_arg = None
       and calls = ?first and calls' = ?rest and ?calls0.0 = "?first @ ?rest"
       and ?api_key0.0 = "Some ''K''" and ?user_creds0.0 = "Some ''old''" and ?client_creds0.0 = None]
  note later = session_created_at_most_once
    [where self = ?s1 and sess = 0 and env = demo_json_env]
  have a0: "active_session ?s0 = None"
    and f0: "session_factory demo_json_env (factory_calls (events ?s0)) = Inr 0"
    and f00: "session_factory demo_json_env 0 = Inr 0"
    by (simp_all add: init_def demo_json_env_def)
  have k: "api_key ?s0 = Some ''K''"
    by (simp add: init_def)
  have u: "py_or (truthy demo_json_env) None (user_creds ?s0) = Some ''old''"
    by (simp add: py_or_def init_def demo_json_env_def)
  have r: "\<not> is_expired demo_json_env ''old'' \<or>
      (\<exists>uc'. refresh demo_json_env ''old'' (client_creds ?s0) = Inr uc')"
    by (simp add: demo_json_env_def)
  have s: "snd (send demo_json_env ?s0 [''a''] None False) = ?s1"
    using fresh a0 f0 by (simp add: init_def)
  have e: "aenter demo_json_env ?s0 =
     (Inr (), \<lparr>active_session = Some 0, api_key = Some ''K'', user_creds = Some ''old'',
               client_creds = None, events = [FactoryCall 0, EnterCall 0]\<rparr>)"
    using fresh a0 f0 by (simp add: init_def demo_json_env_def)
  have an: "active_session (snd (as_anon demo_json_env ?s0 [''a''] None False)) = Some 0"
    using fresh a0 f0 by simp
  have ak: "active_session (snd (as_api_key demo_json_env ?s0 [''a''] None False None)) = Some 0"
    using fresh a0 f0 k by blast
  have au: "active_session (snd (as_user demo_json_env ?s0 [''a''] None False None)) = Some 0"
    using fresh a0 f0 u r by blast
  have en: "ensure_session_set demo_json_env ?s1 = (Inr (), ?s1)"
    using later [THEN conjunct1] by simp
  have first: "run_calls ?s0 ?first = ?s1"
    using s by (simp add: as_anon_def)
  have kept: "active_session (run_calls ?s0 (?first @ ?rest)) = Some 0 \<and>
      factory_calls (events (run_calls ?s0 (?first @ ?rest))) = 1"
    using fresh first by simp
  have once: "session_assignments ?s0 (?first @ ?rest) \<le> 1"
    using fresh by blast
  from a0 f00 s e an ak au en kept once show ?thesis
    by simp
qed

section \<open>Discovery\<close>

lemma list_api_tail:
  obtains tail where
    "events (snd (list_api env self name preferred fields_arg)) =
       events self @ ListCall name preferred fields_arg # tail"
    "filter is_getRest tail = []" "filter validating_getRest tail = []"
proof (cases "apis_list env name preferred fields_arg")
  case (Inl e)
  then have "events (snd (list_api env self name preferred fields_arg)) =
       events self @ ListCall name preferred fields_arg # []"
    by (simp add: list_api_def)
  then show ?thesis using that by simp
next
  case (Inr request)
  let ?s = "self\<lparr>events := events self @ [ListCall name preferred fields_arg]\<rparr>"
  obtain tail where "events (snd (send env ?s [request] None False)) = events ?s @ tail"
    and "filter is_getRest tail = []" and "filter validating_getRest tail = []"
    by (rule send_tail)
  moreover have "list_api env self name preferred fields_arg = send env ?s [request] None False"
    using Inr by (simp add: list_api_def as_anon_def)
  ultimately show ?thesis using that by simp
qed

text \<open>
  Claim C9. When \<^verbatim>\<open>discover\<close> is called without a version and the preferred-version
  listing comes back with an empty \<open>items\<close> list, \<^verbatim>\<open>discover\<close> raises
  ValueError "Invalid API name", in the state the listing left, and the call has built no
  getRest request.
\<close>

theorem discover_invalid_api_name:
  assumes "list_api env self api_name (JBool True) JNull = (Inr discovery_list, self1)"
      and "getitem discovery_list ''items'' = Inr (JList [])"
  shows "discover env self api_name JNull validate_arg =
           (Inl (ValueError ''Invalid API name''), self1) \<and>
         filter is_getRest
           (drop (length (events self))
              (events (snd (discover env self api_name JNull validate_arg)))) = []"
proof -
  have d: "discover env self api_name JNull validate_arg =
           (Inl (ValueError ''Invalid API name''), self1)"
    using assms by (simp add: discover_def)
  obtain tail where "events (snd (list_api env self api_name (JBool True) JNull)) =
       events self @ ListCall api_name (JBool True) JNull # tail"
    and "filter is_getRest tail = []"
    by (rule list_api_tail)
  then show ?thesis using assms(1) by (simp add: d)
qed

theorem discover_invalid_api_name_witness:
  "list_api demo_json_env (init None None None) (JStr ''nosuch'') (JBool True) JNull =
     (Inr (JDict [(''kind'', JStr ''discovery#directoryList''), (''items'', JList [])]),
      \<lparr>active_session = Some 0, api_key = None, user_creds = None, client_creds = None,
       events = [ListCall (JStr ''nosuch'') (JBool True) JNull, FactoryCall 0,
                 SendCall 0 [''list nosuch''] None False]\<rparr>) \<and>
   getitem (JDict [(''kind'', JStr ''discovery#directoryList''), (''items'', JList [])]) ''items''
     = Inr (JList []) \<and>
   fst (discover demo_json_env (init None None None) (JStr ''nosuch'') JNull True) =
     Inl (ValueError ''Invalid API name'') \<and>
   filter is_getRest
     (events (snd (discover demo_json_env (init None None None) (JStr ''nosuch'') JNull True))) = []"
proof -
  let ?s0 = "init None None None :: (string, string, string, unit, nat) aiogoogle"
  have l: "list_api demo_json_env ?s0 (JStr ''nosuch'') (JBool True) JNull =
     (Inr (JDict [(''kind'', JStr ''discovery#directoryList''), (''items'', JList [])]),
      \<lparr>active_session = Some 0, api_key = None, user_creds = None, client_creds = None,
       events = [ListCall (JStr ''nosuch'') (JBool True) JNull, FactoryCall 0,
                 SendCall 0 [''list nosuch''] None False]\<rparr>)"
    by (simp add: list_api_def as_anon_def init_def send_def ensure_session_set_def
        demo_json_env_def)
  have g: "getitem (JDict [(''kind'', JStr ''discovery#directoryList''), (''items'', JList [])]) ''items''
     = Inr (JList [])"
    by simp
  have e: "events ?s0 = []"
    by (simp add: init_def)
  show ?thesis
    using discover_invalid_api_name [OF l g, of True] l g e by simp
qed

lemma get_rest_snd:
  "snd (get_rest env self api_name api_version b) = snd (get_rest env self api_name api_version b')"
  by (simp add: get_rest_def Let_def snd_wrap split: sum.splits)

lemma get_rest_doc:
  "map_sum id discovery_document (fst (get_rest env self api_name api_version b)) =
   map_sum id discovery_document (fst (get_rest env self api_name api_version b'))"
  by (simp add: get_rest_def Let_def split: sum.splits prod.splits)

lemma get_rest_validate:
  "fst (get_rest env self api_name api_version b) = Inr g \<Longrightarrow> validate g = b"
  by (auto simp add: get_rest_def Let_def split: sum.splits prod.splits)

lemma get_rest_tail:
  obtains tail where
    "events (snd (get_rest env self api_name api_version b)) =
       events self @ GetRestCall api_name api_version False # tail"
    "filter validating_getRest tail = []"
proof (cases "apis_getRest env api_name api_version False")
  case (Inl e)
  then have "events (snd (get_rest env self api_name api_version b)) =
       events self @ GetRestCall api_name api_version False # []"
    by (simp add: get_rest_def)
  then show ?thesis using that by simp
next
  case (Inr request)
  let ?s = "self\<lparr>events := events self @ [GetRestCall api_name api_version False]\<rparr>"
  obtain tail where "events (snd (send env ?s [request] None False)) = events ?s @ tail"
    and "filter validating_getRest tail = []"
    by (rule send_tail)
  moreover have "snd (get_rest env self api_name api_version b) = snd (send env ?s [request] None False)"
    using Inr by (simp add: get_rest_def as_anon_def snd_wrap)
  ultimately show ?thesis using that by simp
qed

lemma discover_tail:
  obtains tail where
    "events (snd (discover env self api_name api_version b)) = events self @ tail"
    "filter validating_getRest tail = []"
proof (cases "api_version = JNull")
  case False
  obtain tail where "events (snd (get_rest env self api_name api_version b)) =
       events self @ GetRestCall api_name api_version False # tail"
    and "filter validating_getRest tail = []"
    by (rule get_rest_tail)
  then show ?thesis using that False by (simp add: discover_def)
next
  case True
  obtain res self1 where l: "list_api env self api_name (JBool True) JNull = (res, self1)"
    by (cases "list_api env self api_name (JBool True) JNull")
  obtain tail1 where "events (snd (list_api env self api_name (JBool True) JNull)) =
       events self @ ListCall api_name (JBool True) JNull # tail1"
    and t1: "filter validating_getRest tail1 = []"
    by (rule list_api_tail)
  then have e1: "events self1 = events self @ ListCall api_name (JBool True) JNull # tail1"
    using l by simp
  have stay: "\<exists>tail. events self1 = events self @ tail \<and> filter validating_getRest tail = []"
    using e1 t1 by simp
  have go: "\<exists>tail. events (snd (get_rest env self1 a v b)) = events self @ tail \<and>
      filter validating_getRest tail = []" for a v
  proof -
    obtain tail2 where "events (snd (get_rest env self1 a v b)) =
         events self1 @ GetRestCall a v False # tail2"
      and "filter validating_getRest tail2 = []"
      by (rule get_rest_tail)
    then show ?thesis using e1 t1 by simp
  qed
  have "\<exists>tail. events (snd (discover env self api_name api_version b)) = events self @ tail \<and>
      filter validating_getRest tail = []"
    using True l stay go by (simp add: discover_def split: sum.splits)
  then show ?thesis using that by blast
qed

text \<open>
  Claim C10. The \<^verbatim>\<open>validate\<close> flag of \<^verbatim>\<open>discover\<close> changes nothing but the flag of
  the returned \<^verbatim>\<open>GoogleAPI\<close>: two calls that differ only in the flag leave the same
  object and the same log of calls, raise the same error or fetch the same document; no
  getRest request of the call is built with validation enabled; and the returned object
  carries the caller's flag.
\<close>

theorem discover_validate_flag:
  "snd (discover env self api_name api_version b) = snd (discover env self api_name api_version b') \<and>
   map_sum id discovery_document (fst (discover env self api_name api_version b)) =
     map_sum id discovery_document (fst (discover env self api_name api_version b')) \<and>
   filter validating_getRest
     (drop (length (events self)) (events (snd (discover env self api_name api_version b)))) = [] \<and>
   (\<forall>g. fst (discover env self api_name api_version b) = Inr g \<longrightarrow> validate g = b)"
proof (intro conjI allI impI)
  show "snd (discover env self api_name api_version b) = snd (discover env self api_name api_version b')"
    by (simp add: discover_def get_rest_snd [of _ _ _ _ b b'] split: prod.splits sum.splits)
  show "map_sum id discovery_document (fst (discover env self api_name api_version b)) =
     map_sum id discovery_document (fst (discover env self api_name api_version b'))"
    by (simp add: discover_def get_rest_doc [of _ _ _ _ b b'] split: prod.splits sum.splits)
  show "filter validating_getRest
     (drop (length (events self)) (events (snd (discover env self api_name api_version b)))) = []"
  proof -
    obtain tail where "events (snd (discover env self api_name api_version b)) = events self @ tail"
      and "filter validating_getRest tail = []"
      by (rule discover_tail)
    then show ?thesis by simp
  qed
next
  fix g assume "fst (discover env self api_name api_version b) = Inr g"
  then show "validate g = b"
    by (auto simp add: discover_def dest: get_rest_validate split: prod.splits sum.splits if_splits)
qed

theorem discover_validate_flag_witness:
  "discover demo_json_env (init None None None) (JStr ''youtube'') JNull True =
     (Inr (GoogleAPI (JDict [(''name'', JStr ''youtube''), (''version'', JStr ''v3'')]) True),
      \<lparr>active_session = Some 0, api_key = None, user_creds = None, client_creds = None,
       events = [ListCall (JStr ''youtube'') (JBool True) JNull, FactoryCall 0,
                 SendCall 0 [''list youtube''] None False,
                 GetRestCall (JStr ''youtube'') (JStr ''v3'') False,
                 SendCall 0 [''getRest youtube v3''] None False]\<rparr>) \<and>
   snd (discover demo_json_env (init None None None) (JStr ''youtube'') JNull False) =
     snd (discover demo_json_env (init None None None) (JStr ''youtube'') JNull True) \<and>
   fst (discover demo_json_env (init None None None) (JStr ''youtube'') JNull False) =
     Inr (GoogleAPI (JDict [(''name'', JStr ''youtube''), (''version'', JStr ''v3'')]) False)"
proof -
  let ?s0 = "init None None None :: (string, string, string, unit, nat) aiogoogle"
  have run: "discover demo_json_env ?s0 (JStr ''youtube'') JNull True =
     (Inr (GoogleAPI (JDict [(''name'', JStr ''youtube''), (''version'', JStr ''v3'')]) True),
      \<lparr>active_session = Some 0, api_key = None, user_creds = None, client_creds = None,
       events = [ListCall (JStr ''youtube'') (JBool True) JNull, FactoryCall 0,
                 SendCall 0 [''list youtube''] None False,
                 GetRestCall (JStr ''youtube'') (JStr ''v3'') False,
                 SendCall 0 [''getRest youtube v3''] None False]\<rparr>)"
    by (simp add: discover_def get_rest_def list_api_def as_anon_def init_def send_def
        ensure_session_set_def demo_json_env_def)
  obtain g where g: "fst (discover demo_json_env ?s0 (JStr ''youtube'') JNull False) = Inr g"
    using discover_validate_flag [of demo_json_env ?s0 "JStr ''youtube''" JNull False True]
    by (cases "fst (discover demo_json_env ?s0 (JStr ''youtube'') JNull False)") (simp_all add: run)
  have "validate g = False" and "discovery_document g = JDict [(''name'', JStr ''youtube''), (''version'', JStr ''v3'')]"
    using discover_validate_flag [of demo_json_env ?s0 "JStr ''youtube''" JNull False True] g
    by (simp_all add: run)
  then have "g = GoogleAPI (JDict [(''name'', JStr ''youtube''), (''version'', JStr ''v3'')]) False"
    by (cases g) simp
  with g show ?thesis
    using discover_validate_flag [of demo_json_env ?s0 "JStr ''youtube''" JNull False True]
    by (simp add: run)
qed

end
